theory Spec2Isabelle
  imports Complex_Main "HOL-Library.Sublist"
begin

section \<open>Geometry values used by the growth solver\<close>

text \<open>
  The solver (\<^verbatim>\<open>growth_solver.py\<close>) works on the points and vectors of the geometry
  library it imports as \<^verbatim>\<open>rg\<close>.  Coordinates are double precision numbers in the
  program; they are idealised as real numbers here, so rounding is not part of the model.
  The library operations the solver calls are written out below with the meaning the
  library documents for them.
\<close>

datatype Point3d = Point3d (px: real) (py: real) (pz: real)

datatype Vector3d = Vector3d (vx: real) (vy: real) (vz: real)

text \<open>\<^verbatim>\<open>rg.Vector3d.ZAxis\<close>.\<close>

definition ZAxis :: Vector3d where
  "ZAxis = Vector3d 0 0 1"

text \<open>\<^verbatim>\<open>RhinoMath.UnsetValue\<close>, the library's marker for an invalid number.\<close>

definition UnsetValue :: real where
  "UnsetValue = - (123432101234321 * 10 ^ 294)"

text \<open>\<^verbatim>\<open>vec *= t\<close>: scaling a vector.\<close>

fun vscale :: "Vector3d \<Rightarrow> real \<Rightarrow> Vector3d" where
  "vscale (Vector3d x y z) t = Vector3d (x * t) (y * t) (z * t)"

text \<open>\<^verbatim>\<open>a * b\<close> on two vectors: the dot product.\<close>

fun vdot :: "Vector3d \<Rightarrow> Vector3d \<Rightarrow> real" where
  "vdot (Vector3d x1 y1 z1) (Vector3d x2 y2 z2) = x1 * x2 + y1 * y2 + z1 * z2"

text \<open>\<^verbatim>\<open>p - q\<close> on two points: the vector from \<open>q\<close> to \<open>p\<close>.\<close>

fun psub :: "Point3d \<Rightarrow> Point3d \<Rightarrow> Vector3d" where
  "psub (Point3d x1 y1 z1) (Point3d x2 y2 z2) = Vector3d (x1 - x2) (y1 - y2) (z1 - z2)"

text \<open>\<^verbatim>\<open>pt.Transform(rg.Transform.Translation(d))\<close>: the point moved by \<open>d\<close>.\<close>

fun translate :: "Point3d \<Rightarrow> Vector3d \<Rightarrow> Point3d" where
  "translate (Point3d x y z) (Vector3d dx dy dz) = Point3d (x + dx) (y + dy) (z + dz)"

fun Length :: "Vector3d \<Rightarrow> real" where
  "Length (Vector3d x y z) = sqrt (x * x + y * y + z * z)"

text \<open>
  \<^verbatim>\<open>v.Unitize()\<close> scales \<open>v\<close> to length one in place and returns whether it could:
  a vector of length zero is left as it is and the call returns false.  The model
  returns the flag together with the vector after the call.
\<close>

definition Unitize :: "Vector3d \<Rightarrow> bool \<times> Vector3d" where
  "Unitize v =
     (let d = Length v
      in if d > 0 then (True, Vector3d (vx v / d) (vy v / d) (vz v / d)) else (False, v))"

text \<open>\<^verbatim>\<open>p.DistanceTo(q)\<close>: the Euclidean distance.\<close>

definition DistanceTo :: "Point3d \<Rightarrow> Point3d \<Rightarrow> real" where
  "DistanceTo p q = Length (psub q p)"

text \<open>
  \<^verbatim>\<open>rg.Vector3d.VectorAngle(a, b)\<close>: both vectors are unitized; if either cannot be,
  the result is \<^verbatim>\<open>UnsetValue\<close>; otherwise the dot product is clamped to \<open>[-1, 1]\<close> and
  its arc cosine (radians) is returned.
\<close>

definition VectorAngle :: "Vector3d \<Rightarrow> Vector3d \<Rightarrow> real" where
  "VectorAngle a b =
     (case Unitize a of (oka, ua) \<Rightarrow>
      case Unitize b of (okb, ub) \<Rightarrow>
        if \<not> oka \<or> \<not> okb then UnsetValue
        else let dot0 = vdot ua ub;
                 dot1 = (if dot0 > 1 then 1 else dot0);
                 dot2 = (if dot1 < - 1 then - 1 else dot1)
             in arccos dot2)"

text \<open>\<^verbatim>\<open>math.radians\<close> and \<^verbatim>\<open>math.degrees\<close>.\<close>

definition radians :: "real \<Rightarrow> real" where
  "radians d = d * pi / 180"

definition degrees :: "real \<Rightarrow> real" where
  "degrees r = r * 180 / pi"

section \<open>The terrain mesh\<close>

text \<open>
  The terrain is an object of the geometry library.  The solver uses two of its
  queries: \<^verbatim>\<open>ClosestMeshPoint(point, radius)\<close>, which returns a mesh point or
  \<^verbatim>\<open>None\<close>, and \<^verbatim>\<open>NormalAt(mesh_point)\<close>.  A mesh point carries its position
  \<^verbatim>\<open>Point\<close> and the face it lies on.  The terrain is a parameter of everything below:
  a record of the two queries.  (\<^verbatim>\<open>Normals.ComputeNormals()\<close> only prepares the
  normals that \<^verbatim>\<open>NormalAt\<close> reads.)
\<close>

record MeshPoint =
  Point :: Point3d
  FaceIndex :: int

record terrain_mesh =
  ClosestMeshPoint :: "Point3d \<Rightarrow> real \<Rightarrow> MeshPoint option"
  NormalAt :: "MeshPoint \<Rightarrow> Vector3d"

section \<open>Configuration\<close>

text \<open>The entries of the \<^verbatim>\<open>PARAMS\<close> dictionary, after \<^verbatim>\<open>PARAMS["sun_vec"].Unitize()\<close>.\<close>

definition max_slope_deg :: real where
  "max_slope_deg = 30"

definition min_dist :: real where
  "min_dist = 3"

definition step_size :: real where
  "step_size = 7 / 2"

definition sun_vec :: Vector3d where
  "sun_vec = snd (Unitize (Vector3d 0 (- 3) (1 / 2)))"

text \<open>
  The hexagonal search directions: the loop \<^verbatim>\<open>for i in range(6)\<close> appends
  \<open>(cos a, sin a, 0)\<close> scaled by the step size, for \<open>a = radians (i * 60)\<close>.
\<close>

definition growth_direction :: "nat \<Rightarrow> Vector3d" where
  "growth_direction i =
     (let angle = radians (real i * 60)
      in vscale (Vector3d (cos angle) (sin angle) 0) step_size)"

definition growth_directions :: "Vector3d list" where
  "growth_directions = map growth_direction [0..<6]"

section \<open>The pseudo-random source\<close>

text \<open>
  \<^verbatim>\<open>random.choice(seq)\<close> draws from the interpreter's generator and returns the element
  at an index below \<open>len(seq)\<close>; on an empty sequence it raises \<^verbatim>\<open>IndexError\<close>.  The
  generator is represented by the sequence of its raw draws: the \<open>k\<close>-th call of the run
  uses draw \<open>k\<close>, reduced to an index of the sequence.
\<close>

datatype error = IndexError

type_synonym random_source = "nat \<Rightarrow> nat"

definition random_choice :: "random_source \<Rightarrow> nat \<Rightarrow> 'a list \<Rightarrow> error + 'a" where
  "random_choice rng k xs =
     (if xs = [] then Inl IndexError else Inr (xs ! (rng k mod length xs)))"

text \<open>A random source whose every draw is 0: \<^verbatim>\<open>random.choice\<close> then returns the first element.\<close>

definition zero_draws :: random_source where
  "zero_draws k = 0"

section \<open>The growth loop\<close>

text \<open>
  The variables of \<^verbatim>\<open>run_simulation\<close> that the loop updates: the colony \<^verbatim>\<open>modules\<close>,
  the parallel list \<^verbatim>\<open>iterations\<close> of creation indices, the cursor
  \<^verbatim>\<open>current\<close>, and the number of draws taken from the random source so far.
\<close>

record state =
  modules :: "Point3d list"
  iterations :: "int list"
  current :: Point3d
  draws :: nat

text \<open>
  Collision detection: the inner loop over \<^verbatim>\<open>modules\<close> stops at the first module
  closer than \<open>min_dist - 0.1\<close>.
\<close>

fun collision :: "Point3d \<Rightarrow> Point3d list \<Rightarrow> bool" where
  "collision cand_pt [] = False"
| "collision cand_pt (existing # rest) =
     (if DistanceTo cand_pt existing < min_dist - 1 / 10 then True
      else collision cand_pt rest)"

text \<open>
  The body of the sensing loop for one direction \<open>d\<close>: the result is the point appended
  to \<^verbatim>\<open>candidates\<close>, or \<open>None\<close> when the body ends without appending.
\<close>

definition check_direction ::
  "terrain_mesh \<Rightarrow> Point3d list \<Rightarrow> Point3d \<Rightarrow> Vector3d \<Rightarrow> Point3d option" where
  "check_direction terrain ms cur d =
     (let test_pt = translate cur d
      in case ClosestMeshPoint terrain test_pt 1000 of
           None \<Rightarrow> None
         | Some mp_check \<Rightarrow>
             (let cand_pt = Point mp_check;
                  normal = NormalAt terrain mp_check;
                  slope_rad = VectorAngle normal ZAxis
              in if degrees slope_rad > max_slope_deg then None
                 else if collision cand_pt ms then None
                 else Some cand_pt))"

text \<open>The sensing loop \<^verbatim>\<open>for d in growth_directions\<close>, building \<^verbatim>\<open>candidates\<close>.\<close>

fun sense :: "terrain_mesh \<Rightarrow> Point3d list \<Rightarrow> Point3d \<Rightarrow> Vector3d list \<Rightarrow> Point3d list" where
  "sense terrain ms cur [] = []"
| "sense terrain ms cur (d # ds) =
     (case check_direction terrain ms cur d of
        None \<Rightarrow> sense terrain ms cur ds
      | Some cand_pt \<Rightarrow> cand_pt # sense terrain ms cur ds)"

text \<open>The alignment score of one candidate: the unitized growth vector times the sun vector.\<close>

definition score :: "Point3d \<Rightarrow> Point3d \<Rightarrow> real" where
  "score cur cand = vdot (snd (Unitize (psub cand cur))) sun_vec"

text \<open>
  The selection loop \<^verbatim>\<open>for cand in candidates\<close>, on the pair
  \<^verbatim>\<open>(best_cand, best_score)\<close>.
\<close>

fun select_loop ::
  "Point3d \<Rightarrow> Point3d list \<Rightarrow> Point3d option \<times> real \<Rightarrow> Point3d option \<times> real" where
  "select_loop cur [] acc = acc"
| "select_loop cur (cand # cands) (best_cand, best_score) =
     (if score cur cand > best_score then select_loop cur cands (Some cand, score cur cand)
      else select_loop cur cands (best_cand, best_score))"

definition select_best :: "Point3d \<Rightarrow> Point3d list \<Rightarrow> Point3d option" where
  "select_best cur cands = fst (select_loop cur cands (None, - 999))"

text \<open>
  One pass of the main loop, for iteration number \<open>i\<close>.  A point object is always true
  in the test \<^verbatim>\<open>if best_cand\<close>, so the test asks whether \<^verbatim>\<open>best_cand\<close> is not
  \<^verbatim>\<open>None\<close>.
\<close>

definition growth_step ::
  "terrain_mesh \<Rightarrow> random_source \<Rightarrow> state \<Rightarrow> int \<Rightarrow> error + state" where
  "growth_step terrain rng st i =
     (let candidates = sense terrain (modules st) (current st) growth_directions
      in if candidates = [] then
           (case random_choice rng (draws st) (modules st) of
              Inl e \<Rightarrow> Inl e
            | Inr m \<Rightarrow> Inr (st\<lparr>current := m, draws := Suc (draws st)\<rparr>))
         else
           (case select_best (current st) candidates of
              None \<Rightarrow> Inr st
            | Some best_cand \<Rightarrow>
                Inr (st\<lparr>modules := modules st @ [best_cand],
                        iterations := iterations st @ [i],
                        current := best_cand\<rparr>)))"

text \<open>The main loop over the iteration numbers; an exception ends it.\<close>

fun growth_loop ::
  "terrain_mesh \<Rightarrow> random_source \<Rightarrow> state \<Rightarrow> int list \<Rightarrow> error + state" where
  "growth_loop terrain rng st [] = Inr st"
| "growth_loop terrain rng st (i # rest) =
     (case growth_step terrain rng st i of
        Inl e \<Rightarrow> Inl e
      | Inr st' \<Rightarrow> growth_loop terrain rng st' rest)"

text \<open>
  The states the main loop passes through: the state before each iteration that is
  started, and the state after the last one.
\<close>

fun growth_trace ::
  "terrain_mesh \<Rightarrow> random_source \<Rightarrow> state \<Rightarrow> int list \<Rightarrow> state list" where
  "growth_trace terrain rng st [] = [st]"
| "growth_trace terrain rng st (i # rest) =
     st # (case growth_step terrain rng st i of
             Inl e \<Rightarrow> []
           | Inr st' \<Rightarrow> growth_trace terrain rng st' rest)"

text \<open>Initialisation: the seed is snapped to the terrain when the projection succeeds.\<close>

definition init_state :: "terrain_mesh \<Rightarrow> Point3d \<Rightarrow> state" where
  "init_state terrain seed_point =
     (let mp = ClosestMeshPoint terrain seed_point 1000000;
          cur = (case mp of Some m \<Rightarrow> Point m | None \<Rightarrow> seed_point)
      in \<lparr>modules = [cur], iterations = [0], current = cur, draws = 0\<rparr>)"

text \<open>
  The run up to the end of the main loop (\<^verbatim>\<open>range(1, max_modules + 1)\<close>), and
  \<^verbatim>\<open>run_simulation\<close> itself, which returns the colony.
\<close>

definition run_state ::
  "terrain_mesh \<Rightarrow> Point3d \<Rightarrow> int \<Rightarrow> random_source \<Rightarrow> error + state" where
  "run_state terrain seed_point max_modules rng =
     growth_loop terrain rng (init_state terrain seed_point) [1..max_modules]"

definition run_simulation ::
  "terrain_mesh \<Rightarrow> Point3d \<Rightarrow> int \<Rightarrow> random_source \<Rightarrow> error + Point3d list" where
  "run_simulation terrain seed_point max_modules rng =
     (case run_state terrain seed_point max_modules rng of
        Inl e \<Rightarrow> Inl e
      | Inr st \<Rightarrow> Inr (modules st))"

text \<open>The trace of a run: the states before each iteration and the final state.\<close>

definition run_trace ::
  "terrain_mesh \<Rightarrow> Point3d \<Rightarrow> int \<Rightarrow> random_source \<Rightarrow> state list" where
  "run_trace terrain seed_point max_modules rng =
     growth_trace terrain rng (init_state terrain seed_point) [1..max_modules]"

section \<open>Properties of states used in the proofs\<close>

text \<open>
  The colony is never empty, the cursor is one of its modules, and every module has its
  creation index.
\<close>

definition colony_ok :: "state \<Rightarrow> bool" where
  "colony_ok st \<longleftrightarrow>
     modules st \<noteq> [] \<and> current st \<in> set (modules st) \<and>
     length (iterations st) = length (modules st)"

text \<open>Every module is at least \<open>min_dist - 0.1\<close> away from every module placed before it.\<close>

definition spaced :: "Point3d list \<Rightarrow> bool" where
  "spaced ms \<longleftrightarrow> sorted_wrt (\<lambda>a b. min_dist - 1 / 10 \<le> DistanceTo b a) ms"

text \<open>
  A point that passed the slope test of the sensing loop: it is the position of a mesh
  point found with radius 1000 whose normal is within the slope limit.
\<close>

definition slope_checked :: "terrain_mesh \<Rightarrow> Point3d \<Rightarrow> bool" where
  "slope_checked terrain p \<longleftrightarrow>
     (\<exists>q mp. ClosestMeshPoint terrain q 1000 = Some mp \<and> Point mp = p \<and>
        degrees (VectorAngle (NormalAt terrain mp) ZAxis) \<le> max_slope_deg)"

text \<open>The state of an iteration that finds no acceptable candidate.\<close>

definition blocked :: "terrain_mesh \<Rightarrow> state \<Rightarrow> bool" where
  "blocked terrain st \<longleftrightarrow> sense terrain (modules st) (current st) growth_directions = []"

section \<open>Example terrains\<close>

text \<open>
  Three small terrains on which the solver is run below.  \<open>two_pads\<close> consists of two
  level pads three units apart; every query lands on the nearer pad.  \<open>void_terrain\<close> has
  no surface at all: every projection fails.  \<open>wall_terrain\<close> is vertical everywhere:
  every point projects onto itself and every normal is horizontal.
\<close>

definition pad_A :: Point3d where "pad_A = Point3d 0 0 0"

definition pad_B :: Point3d where "pad_B = Point3d 0 (- 3) 0"

definition two_pads :: terrain_mesh where
  "two_pads =
     \<lparr>ClosestMeshPoint =
        (\<lambda>p r. Some \<lparr>Point = (if py p < - (3 / 2) then pad_B else pad_A), FaceIndex = 0\<rparr>),
      NormalAt = (\<lambda>mp. Vector3d 0 0 1)\<rparr>"

definition void_terrain :: terrain_mesh where
  "void_terrain = \<lparr>ClosestMeshPoint = (\<lambda>p r. None), NormalAt = (\<lambda>mp. Vector3d 0 0 1)\<rparr>"

definition wall_terrain :: terrain_mesh where
  "wall_terrain =
     \<lparr>ClosestMeshPoint = (\<lambda>p r. Some \<lparr>Point = p, FaceIndex = 0\<rparr>),
      NormalAt = (\<lambda>mp. Vector3d 1 0 0)\<rparr>"

section \<open>Vectors: lengths, unit vectors and the alignment score\<close>

lemma vdot_sq_le: "(vdot a b)\<^sup>2 \<le> (vdot a a) * (vdot b b)"
proof (cases a; cases b)
  fix x1 y1 z1 x2 y2 z2
  assume a: "a = Vector3d x1 y1 z1" and b: "b = Vector3d x2 y2 z2"
  have "(x1 * x1 + y1 * y1 + z1 * z1) * (x2 * x2 + y2 * y2 + z2 * z2) - (x1 * x2 + y1 * y2 + z1 * z2)\<^sup>2
      = (x1 * y2 - y1 * x2)\<^sup>2 + (x1 * z2 - z1 * x2)\<^sup>2 + (y1 * z2 - z1 * y2)\<^sup>2"
    by (simp add: power2_eq_square algebra_simps)
  moreover have "0 \<le> (x1 * y2 - y1 * x2)\<^sup>2 + (x1 * z2 - z1 * x2)\<^sup>2 + (y1 * z2 - z1 * y2)\<^sup>2"
    by simp
  ultimately have "(x1 * x2 + y1 * y2 + z1 * z2)\<^sup>2
      \<le> (x1 * x1 + y1 * y1 + z1 * z1) * (x2 * x2 + y2 * y2 + z2 * z2)"
    by linarith
  then show ?thesis using a b by simp
qed

lemma vdot_self_nonneg: "0 \<le> vdot a a"
  by (cases a) simp

lemma Length_sq: "(Length a)\<^sup>2 = vdot a a"
  by (cases a) simp

lemma Length_nonneg: "0 \<le> Length a"
  by (cases a) simp

lemma abs_vdot_le: "\<bar>vdot a b\<bar> \<le> Length a * Length b"
proof -
  have "(vdot a b)\<^sup>2 \<le> (Length a * Length b)\<^sup>2"
    using vdot_sq_le [of a b] by (simp add: power_mult_distrib Length_sq)
  then show ?thesis
    using Length_nonneg [of a] Length_nonneg [of b]
    by (metis abs_le_square_iff abs_of_nonneg mult_nonneg_nonneg)
qed

lemma Length_Unitize:
  assumes "Length v > 0"
  shows "Length (snd (Unitize v)) = 1"
proof (cases v)
  case (Vector3d x y z)
  let ?d = "Length v"
  have d2: "?d * ?d = x * x + y * y + z * z"
    using Length_sq [of v] Vector3d by (simp add: power2_eq_square)
  have "x / ?d * (x / ?d) + y / ?d * (y / ?d) + z / ?d * (z / ?d) = (x * x + y * y + z * z) / (?d * ?d)"
    by (simp add: add_divide_distrib)
  also have "\<dots> = 1" using assms by (simp add: d2 [symmetric])
  finally show ?thesis using assms Vector3d by (simp add: Unitize_def Let_def)
qed

lemma Length_Unitize_le: "Length (snd (Unitize v)) \<le> 1"
proof (cases "Length v > 0")
  case True
  then show ?thesis by (simp add: Length_Unitize)
next
  case False
  then have "Length v = 0" using Length_nonneg [of v] by simp
  with False show ?thesis by (simp add: Unitize_def Let_def)
qed

lemma Length_sun_vec: "Length sun_vec = 1"
proof -
  have "Length (Vector3d 0 (- 3) (1 / 2)) > 0" by simp
  then show ?thesis unfolding sun_vec_def by (rule Length_Unitize)
qed

lemma abs_score_le: "\<bar>score cur cand\<bar> \<le> 1"
proof -
  have "\<bar>score cur cand\<bar> \<le> Length (snd (Unitize (psub cand cur))) * Length sun_vec"
    unfolding score_def by (rule abs_vdot_le)
  also have "\<dots> \<le> 1" by (simp add: Length_sun_vec Length_Unitize_le)
  finally show ?thesis .
qed

lemma score_gt_sentinel: "- 999 < score cur cand"
  using abs_score_le [of cur cand] by linarith

section \<open>The selection loop\<close>

lemma select_loop_spec:
  "(select_loop cur cands (bc, bs) = (bc, bs) \<and> (\<forall>c \<in> set cands. score cur c \<le> bs)) \<or>
   (\<exists>k < length cands.
      select_loop cur cands (bc, bs) = (Some (cands ! k), score cur (cands ! k)) \<and>
      bs < score cur (cands ! k) \<and>
      (\<forall>j < length cands. score cur (cands ! j) \<le> score cur (cands ! k)) \<and>
      (\<forall>j < k. score cur (cands ! j) < score cur (cands ! k)))"
proof (induction cands arbitrary: bc bs)
  case Nil
  then show ?case by simp
next
  case (Cons c cs)
  show ?case
  proof (cases "score cur c > bs")
    case True
    from Cons.IH [of "Some c" "score cur c"] show ?thesis
    proof (elim disjE conjE exE)
      assume same: "select_loop cur cs (Some c, score cur c) = (Some c, score cur c)"
        and le: "\<forall>x \<in> set cs. score cur x \<le> score cur c"
      have "\<forall>j < length (c # cs). score cur ((c # cs) ! j) \<le> score cur c"
      proof (intro allI impI)
        fix j assume "j < length (c # cs)"
        then show "score cur ((c # cs) ! j) \<le> score cur c"
          using le by (cases j) auto
      qed
      with True same have "0 < length (c # cs) \<and>
        select_loop cur (c # cs) (bc, bs) = (Some ((c # cs) ! 0), score cur ((c # cs) ! 0)) \<and>
        bs < score cur ((c # cs) ! 0) \<and>
        (\<forall>j < length (c # cs). score cur ((c # cs) ! j) \<le> score cur ((c # cs) ! 0)) \<and>
        (\<forall>j < 0. score cur ((c # cs) ! j) < score cur ((c # cs) ! 0))"
        by simp
      then show ?thesis by blast
    next
      fix k
      assume k: "k < length cs"
        and res: "select_loop cur cs (Some c, score cur c) = (Some (cs ! k), score cur (cs ! k))"
        and gt: "score cur c < score cur (cs ! k)"
        and mx: "\<forall>j < length cs. score cur (cs ! j) \<le> score cur (cs ! k)"
        and fst: "\<forall>j < k. score cur (cs ! j) < score cur (cs ! k)"
      have a: "\<forall>j < length (c # cs). score cur ((c # cs) ! j) \<le> score cur ((c # cs) ! Suc k)"
      proof (intro allI impI)
        fix j assume "j < length (c # cs)"
        then show "score cur ((c # cs) ! j) \<le> score cur ((c # cs) ! Suc k)"
          using mx gt by (cases j) auto
      qed
      have b: "\<forall>j < Suc k. score cur ((c # cs) ! j) < score cur ((c # cs) ! Suc k)"
      proof (intro allI impI)
        fix j assume "j < Suc k"
        then show "score cur ((c # cs) ! j) < score cur ((c # cs) ! Suc k)"
          using fst gt by (cases j) auto
      qed
      have "Suc k < length (c # cs) \<and>
        select_loop cur (c # cs) (bc, bs) = (Some ((c # cs) ! Suc k), score cur ((c # cs) ! Suc k)) \<and>
        bs < score cur ((c # cs) ! Suc k)"
        using True k res gt by simp
      with a b show ?thesis by blast
    qed
  next
    case False
    from Cons.IH [of bc bs] show ?thesis
    proof (elim disjE conjE exE)
      assume "select_loop cur cs (bc, bs) = (bc, bs)" and "\<forall>x \<in> set cs. score cur x \<le> bs"
      with False show ?thesis by simp
    next
      fix k
      assume k: "k < length cs"
        and res: "select_loop cur cs (bc, bs) = (Some (cs ! k), score cur (cs ! k))"
        and gt: "bs < score cur (cs ! k)"
        and mx: "\<forall>j < length cs. score cur (cs ! j) \<le> score cur (cs ! k)"
        and fst: "\<forall>j < k. score cur (cs ! j) < score cur (cs ! k)"
      have a: "\<forall>j < length (c # cs). score cur ((c # cs) ! j) \<le> score cur ((c # cs) ! Suc k)"
      proof (intro allI impI)
        fix j assume "j < length (c # cs)"
        then show "score cur ((c # cs) ! j) \<le> score cur ((c # cs) ! Suc k)"
          using mx gt False by (cases j) auto
      qed
      have b: "\<forall>j < Suc k. score cur ((c # cs) ! j) < score cur ((c # cs) ! Suc k)"
      proof (intro allI impI)
        fix j assume "j < Suc k"
        then show "score cur ((c # cs) ! j) < score cur ((c # cs) ! Suc k)"
          using fst gt False by (cases j) auto
      qed
      have "Suc k < length (c # cs) \<and>
        select_loop cur (c # cs) (bc, bs) = (Some ((c # cs) ! Suc k), score cur ((c # cs) ! Suc k)) \<and>
        bs < score cur ((c # cs) ! Suc k)"
        using False k res gt by simp
      with a b show ?thesis by blast
    qed
  qed
qed

lemma select_best_first_max:
  assumes "cands \<noteq> []"
  shows "\<exists>k < length cands.
      select_best cur cands = Some (cands ! k) \<and>
      (\<forall>j < length cands. score cur (cands ! j) \<le> score cur (cands ! k)) \<and>
      (\<forall>j < k. score cur (cands ! j) < score cur (cands ! k))"
proof -
  from assms obtain c where c: "c \<in> set cands" by (cases cands) auto
  have "\<not> (\<forall>c \<in> set cands. score cur c \<le> - 999)"
    using c score_gt_sentinel [of cur c] by (auto simp: not_le)
  with select_loop_spec [of cur cands None "- 999"] show ?thesis
    unfolding select_best_def by fastforce
qed

lemma select_best_mem:
  assumes "cands \<noteq> []"
  obtains best where "select_best cur cands = Some best" and "best \<in> set cands"
  using select_best_first_max [OF assms, of cur] by (metis nth_mem)

section \<open>Sensing, single iterations and the main loop\<close>

lemma collision_iff:
  "collision cand_pt ms \<longleftrightarrow> (\<exists>e \<in> set ms. DistanceTo cand_pt e < min_dist - 1 / 10)"
  by (induction ms) auto

lemma check_direction_Some:
  assumes "check_direction terrain ms cur d = Some c"
  shows "\<exists>mp. ClosestMeshPoint terrain (translate cur d) 1000 = Some mp \<and> Point mp = c \<and>
           degrees (VectorAngle (NormalAt terrain mp) ZAxis) \<le> max_slope_deg \<and>
           \<not> collision c ms"
  using assms unfolding check_direction_def Let_def
  by (auto split: option.splits if_splits)

lemma sense_mem:
  "c \<in> set (sense terrain ms cur ds) \<Longrightarrow> \<exists>d \<in> set ds. check_direction terrain ms cur d = Some c"
  by (induction ds) (auto split: option.splits)

lemma growth_step_blocked:
  assumes "sense terrain (modules st) (current st) growth_directions = []"
    and "modules st \<noteq> []"
  shows "growth_step terrain rng st i =
           Inr (st\<lparr>current := modules st ! (rng (draws st) mod length (modules st)),
                   draws := Suc (draws st)\<rparr>)"
  using assms by (simp add: growth_step_def random_choice_def)

lemma growth_step_open:
  assumes "sense terrain (modules st) (current st) growth_directions \<noteq> []"
  shows "\<exists>best \<in> set (sense terrain (modules st) (current st) growth_directions).
           select_best (current st) (sense terrain (modules st) (current st) growth_directions)
             = Some best \<and>
           growth_step terrain rng st i =
             Inr (st\<lparr>modules := modules st @ [best], iterations := iterations st @ [i],
                     current := best\<rparr>)"
proof -
  from select_best_mem [OF assms, of "current st"] obtain best
    where "select_best (current st) (sense terrain (modules st) (current st) growth_directions)
             = Some best"
      and "best \<in> set (sense terrain (modules st) (current st) growth_directions)"
    by blast
  then show ?thesis using assms by (auto simp: growth_step_def)
qed

lemma growth_step_cases:
  assumes "modules st \<noteq> []"
  shows "(sense terrain (modules st) (current st) growth_directions = [] \<and>
          growth_step terrain rng st i =
            Inr (st\<lparr>current := modules st ! (rng (draws st) mod length (modules st)),
                    draws := Suc (draws st)\<rparr>)) \<or>
         (\<exists>best \<in> set (sense terrain (modules st) (current st) growth_directions).
            growth_step terrain rng st i =
              Inr (st\<lparr>modules := modules st @ [best], iterations := iterations st @ [i],
                      current := best\<rparr>))"
  using growth_step_blocked [OF _ assms, of terrain rng i] growth_step_open [of terrain st rng i]
  by blast

lemma growth_step_ok:
  assumes "colony_ok st"
  shows "\<exists>st'. growth_step terrain rng st i = Inr st' \<and> colony_ok st'"
proof -
  from assms have ne: "modules st \<noteq> []" by (simp add: colony_ok_def)
  from growth_step_cases [OF ne, of terrain rng i] show ?thesis
    using assms by (auto simp: colony_ok_def)
qed

lemma growth_loop_invariant:
  assumes "colony_ok st" and "P st"
    and step: "\<And>s i s'. colony_ok s \<Longrightarrow> P s \<Longrightarrow> growth_step terrain rng s i = Inr s' \<Longrightarrow> P s'"
  shows "\<exists>st'. growth_loop terrain rng st its = Inr st' \<and> colony_ok st' \<and> P st'"
  using assms(1,2)
proof (induction its arbitrary: st)
  case Nil
  then show ?case by simp
next
  case (Cons i its)
  from growth_step_ok [OF Cons.prems(1), of terrain rng i] obtain s'
    where s': "growth_step terrain rng st i = Inr s'" "colony_ok s'" by blast
  with step [OF Cons.prems s'(1)] Cons.IH [of s'] show ?case by simp
qed

lemma growth_loop_ok:
  assumes "colony_ok st"
  shows "\<exists>st'. growth_loop terrain rng st its = Inr st' \<and> colony_ok st'"
  using growth_loop_invariant [OF assms, of "\<lambda>_. True"] by simp

lemma colony_ok_init: "colony_ok (init_state terrain seed_point)"
  by (simp add: init_state_def colony_ok_def Let_def)

lemma run_state_ok: "\<exists>st. run_state terrain seed_point n rng = Inr st \<and> colony_ok st"
  unfolding run_state_def by (rule growth_loop_ok [OF colony_ok_init])

lemma run_invariant:
  assumes "P (init_state terrain seed_point)"
    and "\<And>s i s'. colony_ok s \<Longrightarrow> P s \<Longrightarrow> growth_step terrain rng s i = Inr s' \<Longrightarrow> P s'"
  shows "\<exists>st. run_state terrain seed_point n rng = Inr st \<and>
              run_simulation terrain seed_point n rng = Inr (modules st) \<and> colony_ok st \<and> P st"
proof -
  have "\<exists>st. growth_loop terrain rng (init_state terrain seed_point) [1..n] = Inr st \<and>
          colony_ok st \<and> P st"
  proof (rule growth_loop_invariant [where P = P])
    show "colony_ok (init_state terrain seed_point)" by (rule colony_ok_init)
    show "P (init_state terrain seed_point)" by (rule assms(1))
    show "\<And>s i s'. colony_ok s \<Longrightarrow> P s \<Longrightarrow> growth_step terrain rng s i = Inr s' \<Longrightarrow> P s'"
      by (rule assms(2))
  qed
  then obtain st where "run_state terrain seed_point n rng = Inr st" "colony_ok st" "P st"
    unfolding run_state_def by blast
  then show ?thesis by (simp add: run_simulation_def)
qed

lemma growth_trace_steps:
  assumes "colony_ok st"
  shows "length (growth_trace terrain rng st its) = Suc (length its) \<and>
         growth_trace terrain rng st its ! 0 = st \<and>
         growth_loop terrain rng st its = Inr (last (growth_trace terrain rng st its)) \<and>
         (\<forall>k < length its.
            colony_ok (growth_trace terrain rng st its ! k) \<and>
            growth_step terrain rng (growth_trace terrain rng st its ! k) (its ! k)
              = Inr (growth_trace terrain rng st its ! Suc k))"
  using assms
proof (induction its arbitrary: st)
  case Nil
  then show ?case by simp
next
  case (Cons i its)
  from growth_step_ok [OF Cons.prems, of terrain rng i] obtain s'
    where s': "growth_step terrain rng st i = Inr s'" "colony_ok s'" by blast
  note IH = Cons.IH [OF s'(2)]
  have tr: "growth_trace terrain rng st (i # its) = st # growth_trace terrain rng s' its"
    using s' by simp
  have ne: "growth_trace terrain rng s' its \<noteq> []" using IH by auto
  have "\<forall>k < length (i # its).
            colony_ok (growth_trace terrain rng st (i # its) ! k) \<and>
            growth_step terrain rng (growth_trace terrain rng st (i # its) ! k) ((i # its) ! k)
              = Inr (growth_trace terrain rng st (i # its) ! Suc k)"
  proof (intro allI impI)
    fix k assume "k < length (i # its)"
    then show "colony_ok (growth_trace terrain rng st (i # its) ! k) \<and>
            growth_step terrain rng (growth_trace terrain rng st (i # its) ! k) ((i # its) ! k)
              = Inr (growth_trace terrain rng st (i # its) ! Suc k)"
      using IH s' Cons.prems unfolding tr by (cases k) auto
  qed
  moreover have "growth_loop terrain rng st (i # its)
      = Inr (last (growth_trace terrain rng st (i # its)))"
    using IH s' ne unfolding tr by simp
  ultimately show ?case using IH unfolding tr by simp
qed

section \<open>The hexagonal directions\<close>

lemma sin_120: "sin (2 * pi / 3) = sqrt 3 / 2"
proof -
  have "2 * pi / 3 = pi - pi / 3" by simp
  then show ?thesis by (simp only: sin_pi_minus sin_60)
qed

lemma cos_120: "cos (2 * pi / 3) = - (1 / 2)"
proof -
  have "2 * pi / 3 = pi - pi / 3" by simp
  then show ?thesis by (simp only: cos_pi_minus cos_60)
qed

lemma sin_240: "sin (4 * pi / 3) = - (sqrt 3 / 2)"
proof -
  have "4 * pi / 3 = pi / 3 + pi" by simp
  then show ?thesis by (simp only: sin_periodic_pi sin_60)
qed

lemma cos_240: "cos (4 * pi / 3) = - (1 / 2)"
proof -
  have "4 * pi / 3 = pi / 3 + pi" by simp
  then show ?thesis by (simp only: cos_periodic_pi cos_60)
qed

lemma sin_300: "sin (5 * pi / 3) = - (sqrt 3 / 2)"
proof -
  have "5 * pi / 3 = 2 * pi - pi / 3" by simp
  then show ?thesis by (simp only: sin_2pi_minus sin_60)
qed

lemma cos_300: "cos (5 * pi / 3) = 1 / 2"
proof -
  have "5 * pi / 3 = 2 * pi - pi / 3" by simp
  then show ?thesis by (simp only: cos_2pi_minus cos_60)
qed

lemma growth_direction_angle:
  "growth_direction i =
     Vector3d (cos (real i * pi / 3) * (7 / 2)) (sin (real i * pi / 3) * (7 / 2)) 0"
proof -
  have "real i * 60 * pi / 180 = real i * pi / 3" by simp
  then show ?thesis by (simp only: growth_direction_def radians_def step_size_def Let_def vscale.simps mult_zero_left)
qed

lemma upt_6: "[0..<6] = [0, 1, 2, 3, 4, 5]"
  by (simp add: upt_rec)

lemma growth_directions_explicit:
  "growth_directions =
     [Vector3d (7 / 2) 0 0,
      Vector3d (7 / 4) (7 * sqrt 3 / 4) 0,
      Vector3d (- (7 / 4)) (7 * sqrt 3 / 4) 0,
      Vector3d (- (7 / 2)) 0 0,
      Vector3d (- (7 / 4)) (- (7 * sqrt 3 / 4)) 0,
      Vector3d (7 / 4) (- (7 * sqrt 3 / 4)) 0]"
  unfolding growth_directions_def upt_6
  by (simp add: growth_direction_angle cos_60 sin_60 sin_120 cos_120 sin_240 cos_240 sin_300 cos_300)

section \<open>Runs on the example terrains\<close>

lemma sqrt_9: "sqrt 9 = 3"
  using real_sqrt_abs [of 3] by simp

lemma sqrt3_bounds: "6 < 7 * sqrt 3" "\<not> 7 * sqrt 3 < - 6" "7 * sqrt 3 < 18"
proof -
  have lo: "1 < sqrt 3" by simp
  have "sqrt 3 < sqrt 4" by (simp only: real_sqrt_less_iff)
  then have hi: "sqrt 3 < 2" by simp
  from lo show "6 < 7 * sqrt 3" by linarith
  from lo show "\<not> 7 * sqrt 3 < - 6" by linarith
  from hi show "7 * sqrt 3 < 18" by linarith
qed

lemma VectorAngle_up: "VectorAngle (Vector3d 0 0 1) ZAxis = 0"
  by (simp add: VectorAngle_def Unitize_def ZAxis_def)

lemma VectorAngle_side: "VectorAngle (Vector3d 1 0 0) ZAxis = pi / 2"
  by (simp add: VectorAngle_def Unitize_def ZAxis_def)

lemma DistanceTo_self: "DistanceTo p p = 0"
  by (cases p) (simp add: DistanceTo_def)

lemma DistanceTo_pads: "DistanceTo pad_B pad_A = 3" "DistanceTo pad_A pad_B = 3"
  by (simp_all add: DistanceTo_def pad_A_def pad_B_def sqrt_9)

lemma check_direction_two_pads:
  "check_direction two_pads ms cur d =
     (let c = (if py (translate cur d) < - (3 / 2) then pad_B else pad_A)
      in if collision c ms then None else Some c)"
  by (simp add: check_direction_def two_pads_def Let_def VectorAngle_up degrees_def max_slope_deg_def)

lemma translate_pads:
  "translate pad_A (Vector3d x y z) = Point3d x y z"
  "translate pad_B (Vector3d x y z) = Point3d x (y - 3) z"
  by (simp_all add: pad_A_def pad_B_def)

lemma sense_two_pads_first:
  "sense two_pads [pad_A] pad_A growth_directions = [pad_B, pad_B]"
  by (simp add: growth_directions_explicit check_direction_two_pads DistanceTo_self DistanceTo_pads
      min_dist_def translate_pads sqrt3_bounds)

lemma sense_two_pads_second:
  "sense two_pads [pad_A, pad_B] pad_B growth_directions = []"
  by (simp add: growth_directions_explicit check_direction_two_pads DistanceTo_self DistanceTo_pads
      min_dist_def translate_pads sqrt3_bounds)

lemma init_two_pads:
  "init_state two_pads pad_A = \<lparr>modules = [pad_A], iterations = [0], current = pad_A, draws = 0\<rparr>"
  by (simp add: init_state_def two_pads_def pad_A_def Let_def)

lemma select_best_same: "select_best cur [c, c] = Some c"
proof -
  obtain best where "select_best cur [c, c] = Some best" "best \<in> set [c, c]"
    by (rule select_best_mem [of "[c, c]" cur]) simp
  then show ?thesis by simp
qed

lemma step_two_pads_first:
  "growth_step two_pads rng \<lparr>modules = [pad_A], iterations = [0], current = pad_A, draws = 0\<rparr> i
     = Inr \<lparr>modules = [pad_A, pad_B], iterations = [0, i], current = pad_B, draws = 0\<rparr>"
  by (simp add: growth_step_def sense_two_pads_first select_best_same)

lemma step_two_pads_second:
  "growth_step two_pads rng
       \<lparr>modules = [pad_A, pad_B], iterations = [0, 1], current = pad_B, draws = 0\<rparr> i
     = Inr \<lparr>modules = [pad_A, pad_B], iterations = [0, 1],
            current = [pad_A, pad_B] ! (rng 0 mod 2), draws = Suc 0\<rparr>"
  by (simp add: growth_step_def sense_two_pads_second random_choice_def numeral_2_eq_2)

lemma upto_1_2: "[1..2] = [1, 2::int]" "[1..1] = [1::int]"
  by (simp_all add: upto.simps)

lemma run_two_pads_1:
  "run_state two_pads pad_A 1 rng =
     Inr \<lparr>modules = [pad_A, pad_B], iterations = [0, 1], current = pad_B, draws = 0\<rparr>"
  by (simp add: run_state_def init_two_pads step_two_pads_first)

lemma run_two_pads_2:
  "run_state two_pads pad_A 2 rng =
     Inr \<lparr>modules = [pad_A, pad_B], iterations = [0, 1],
            current = [pad_A, pad_B] ! (rng 0 mod 2), draws = Suc 0\<rparr>"
  by (simp add: run_state_def init_two_pads step_two_pads_first step_two_pads_second upto_1_2)

lemma trace_two_pads_2:
  "run_trace two_pads pad_A 2 rng =
     [\<lparr>modules = [pad_A], iterations = [0], current = pad_A, draws = 0\<rparr>,
      \<lparr>modules = [pad_A, pad_B], iterations = [0, 1], current = pad_B, draws = 0\<rparr>,
      \<lparr>modules = [pad_A, pad_B], iterations = [0, 1],
            current = [pad_A, pad_B] ! (rng 0 mod 2), draws = Suc 0\<rparr>]"
  by (simp add: run_trace_def init_two_pads step_two_pads_first step_two_pads_second upto_1_2)

lemma sense_void: "sense void_terrain ms cur ds = []"
  by (induction ds) (simp_all add: check_direction_def void_terrain_def)

lemma init_void:
  "init_state void_terrain p = \<lparr>modules = [p], iterations = [0], current = p, draws = 0\<rparr>"
  by (simp add: init_state_def void_terrain_def Let_def)

lemma run_void_1:
  "run_state void_terrain p 1 rng = Inr \<lparr>modules = [p], iterations = [0], current = p, draws = Suc 0\<rparr>"
  by (simp add: run_state_def init_void growth_step_def sense_void random_choice_def)

lemma sense_wall: "sense wall_terrain ms cur ds = []"
  by (induction ds)
    (simp_all add: check_direction_def wall_terrain_def VectorAngle_side degrees_def
      max_slope_deg_def)

lemma init_wall:
  "init_state wall_terrain p = \<lparr>modules = [p], iterations = [0], current = p, draws = 0\<rparr>"
  by (simp add: init_state_def wall_terrain_def Let_def)

lemma run_wall_1:
  "run_state wall_terrain p 1 rng = Inr \<lparr>modules = [p], iterations = [0], current = p, draws = Suc 0\<rparr>"
  by (simp add: run_state_def init_wall growth_step_def sense_wall random_choice_def)

section \<open>Spacing\<close>

lemma DistanceTo_commute: "DistanceTo p q = DistanceTo q p"
proof (cases p; cases q)
  fix x1 y1 z1 x2 y2 z2
  assume p: "p = Point3d x1 y1 z1" and q: "q = Point3d x2 y2 z2"
  have "(x2 - x1) * (x2 - x1) + (y2 - y1) * (y2 - y1) + (z2 - z1) * (z2 - z1)
      = (x1 - x2) * (x1 - x2) + (y1 - y2) * (y1 - y2) + (z1 - z2) * (z1 - z2)"
    by (simp add: algebra_simps)
  then show ?thesis by (simp add: DistanceTo_def p q)
qed

lemma check_direction_clear:
  assumes "check_direction terrain ms cur d = Some c" and "e \<in> set ms"
  shows "min_dist - 1 / 10 \<le> DistanceTo c e"
  using check_direction_Some [OF assms(1)] assms(2) by (auto simp: collision_iff not_less)

lemma check_direction_collides:
  assumes "ClosestMeshPoint terrain (translate cur d) 1000 = Some mp"
    and "e \<in> set ms" and "DistanceTo (Point mp) e < min_dist - 1 / 10"
  shows "check_direction terrain ms cur d = None"
proof -
  have "collision (Point mp) ms" using assms(2,3) by (auto simp: collision_iff)
  then show ?thesis using assms(1) by (simp add: check_direction_def Let_def)
qed

lemma growth_step_spaced:
  assumes "colony_ok s" and "spaced (modules s)" and "growth_step terrain rng s i = Inr s'"
  shows "spaced (modules s')"
proof -
  from assms(1) have ne: "modules s \<noteq> []" by (simp add: colony_ok_def)
  from growth_step_cases [OF ne, of terrain rng i] show ?thesis
  proof (elim disjE conjE bexE)
    assume "growth_step terrain rng s i =
      Inr (s\<lparr>current := modules s ! (rng (draws s) mod length (modules s)),
              draws := Suc (draws s)\<rparr>)"
    with assms(2,3) show ?thesis by auto
  next
    fix best
    assume mem: "best \<in> set (sense terrain (modules s) (current s) growth_directions)"
      and st: "growth_step terrain rng s i =
        Inr (s\<lparr>modules := modules s @ [best], iterations := iterations s @ [i],
                current := best\<rparr>)"
    from sense_mem [OF mem] obtain d
      where "check_direction terrain (modules s) (current s) d = Some best" by blast
    then have "\<forall>e \<in> set (modules s). min_dist - 1 / 10 \<le> DistanceTo best e"
      by (blast intro: check_direction_clear)
    with assms(2,3) st show ?thesis by (auto simp: spaced_def sorted_wrt_append)
  qed
qed

lemma run_spaced:
  "\<exists>st. run_state terrain seed_point n rng = Inr st \<and>
        run_simulation terrain seed_point n rng = Inr (modules st) \<and> colony_ok st \<and>
        spaced (modules st)"
proof (rule run_invariant [where P = "\<lambda>s. spaced (modules s)"])
  show "spaced (modules (init_state terrain seed_point))"
    by (simp add: init_state_def spaced_def Let_def)
  show "\<And>s i s'. colony_ok s \<Longrightarrow> spaced (modules s) \<Longrightarrow> growth_step terrain rng s i = Inr s'
      \<Longrightarrow> spaced (modules s')"
    by (rule growth_step_spaced)
qed

lemma spaced_nth:
  assumes "spaced ms" and "i < length ms" and "j < length ms" and "i \<noteq> j"
  shows "min_dist - 1 / 10 \<le> DistanceTo (ms ! i) (ms ! j)"
proof (cases "i < j")
  case True
  with assms have "min_dist - 1 / 10 \<le> DistanceTo (ms ! j) (ms ! i)"
    by (simp add: spaced_def sorted_wrt_iff_nth_less)
  then show ?thesis by (simp add: DistanceTo_commute)
next
  case False
  with assms have "j < i" by simp
  with assms show ?thesis by (simp add: spaced_def sorted_wrt_iff_nth_less)
qed

text \<open>
  Claim C1 (spacing invariant).  Every run returns a colony, and any two modules at
  different positions of the returned colony are at least \<open>min_dist - 0.1\<close> apart.
  The reason is the collision test of the sensing loop: a grounded candidate that is
  closer than \<open>min_dist - 0.1\<close> to some module of the colony is never accepted.
\<close>

theorem spacing_invariant:
  "\<exists>colony. run_simulation terrain seed_point max_modules rng = Inr colony \<and>
     (\<forall>i < length colony. \<forall>j < length colony. i \<noteq> j \<longrightarrow>
        min_dist - 1 / 10 \<le> DistanceTo (colony ! i) (colony ! j)) \<and>
     (\<forall>ms cur d mp. 
        ClosestMeshPoint terrain (translate cur d) 1000 = Some mp \<and>
        (\<exists>e \<in> set ms. DistanceTo (Point mp) e < min_dist - 1 / 10) \<longrightarrow>
        check_direction terrain ms cur d = None)"
proof -
  from run_spaced [of terrain seed_point max_modules rng] obtain st :: state
    where run: "run_simulation terrain seed_point max_modules rng = Inr (modules st)"
      and sp: "spaced (modules st)" by blast
  have "\<forall>i < length (modules st). \<forall>j < length (modules st). i \<noteq> j \<longrightarrow>
        min_dist - 1 / 10 \<le> DistanceTo (modules st ! i) (modules st ! j)"
    using sp by (blast intro: spaced_nth)
  moreover have "\<forall>ms cur d mp. 
        ClosestMeshPoint terrain (translate cur d) 1000 = Some mp \<and>
        (\<exists>e \<in> set ms. DistanceTo (Point mp) e < min_dist - 1 / 10) \<longrightarrow>
        check_direction terrain ms cur d = None"
    by (blast intro: check_direction_collides)
  ultimately show ?thesis using run by blast
qed

lemma run_sim_two_pads_1: "run_simulation two_pads pad_A 1 rng = Inr [pad_A, pad_B]"
  by (simp add: run_simulation_def run_two_pads_1)

text \<open>
  On the two pads with a budget of one iteration the colony is the two pads, three
  units apart; the candidate in direction 0 lands on the seed pad and is rejected.
\<close>

theorem spacing_invariant_witness:
  "run_simulation two_pads pad_A 1 (\<lambda>k. 0) = Inr [pad_A, pad_B] \<and>
   (0::nat) < length [pad_A, pad_B] \<and> (1::nat) < length [pad_A, pad_B] \<and> (0::nat) \<noteq> 1 \<and>
   min_dist - 1 / 10 \<le> DistanceTo ([pad_A, pad_B] ! 0) ([pad_A, pad_B] ! 1) \<and>
   ClosestMeshPoint two_pads (translate pad_A (Vector3d (7 / 2) 0 0)) 1000
     = Some \<lparr>Point = pad_A, FaceIndex = 0\<rparr> \<and>
   DistanceTo pad_A pad_A < min_dist - 1 / 10 \<and>
   check_direction two_pads [pad_A] pad_A (Vector3d (7 / 2) 0 0) = None"
proof -
  have cl: "ClosestMeshPoint two_pads (translate pad_A (Vector3d (7 / 2) 0 0)) 1000
     = Some \<lparr>Point = pad_A, FaceIndex = 0\<rparr>"
    by (simp add: two_pads_def translate_pads)
  have near: "DistanceTo pad_A pad_A < min_dist - 1 / 10"
    by (simp add: DistanceTo_self min_dist_def)
  from spacing_invariant [of two_pads pad_A 1 "\<lambda>k. 0"] obtain colony
    where run: "run_simulation two_pads pad_A 1 (\<lambda>k. 0) = Inr colony"
      and far: "\<forall>i < length colony. \<forall>j < length colony. i \<noteq> j \<longrightarrow>
        min_dist - 1 / 10 \<le> DistanceTo (colony ! i) (colony ! j)"
      and rej: "\<forall>ms cur d mp. 
        ClosestMeshPoint two_pads (translate cur d) 1000 = Some mp \<and>
        (\<exists>e \<in> set ms. DistanceTo (Point mp) e < min_dist - 1 / 10) \<longrightarrow>
        check_direction two_pads ms cur d = None"
    by blast
  from run have colony: "colony = [pad_A, pad_B]" by (simp add: run_sim_two_pads_1)
  from far [rule_format, of 0 1]
  have "min_dist - 1 / 10 \<le> DistanceTo ([pad_A, pad_B] ! 0) ([pad_A, pad_B] ! 1)"
    unfolding colony by simp
  moreover from rej cl near
  have "check_direction two_pads [pad_A] pad_A (Vector3d (7 / 2) 0 0) = None"
    by (metis MeshPoint.select_convs(1) list.set_intros(1))
  ultimately show ?thesis using cl near by (simp add: run_sim_two_pads_1)
qed

section \<open>The selector and the growing iteration\<close>

text \<open>
  Claim C6 (selector).  On a non-empty candidate list the selector returns a candidate
  \<open>cands ! k\<close> such that: every candidate is scored by the dot product of the unitized
  vector from the cursor to it with the sun vector, no candidate scores higher than
  \<open>cands ! k\<close>, and every candidate before position \<open>k\<close> scores strictly lower.  So the
  winner has the greatest score, and among equal greatest scores it is the earliest.
\<close>

theorem selector_first_maximum:
  assumes "cands \<noteq> []"
  shows "\<exists>k < length cands.
           select_best cur cands = Some (cands ! k) \<and>
           (\<forall>j < length cands.
              score cur (cands ! j) = vdot (snd (Unitize (psub (cands ! j) cur))) sun_vec \<and>
              score cur (cands ! j) \<le> score cur (cands ! k)) \<and>
           (\<forall>j < k. score cur (cands ! j) < score cur (cands ! k))"
  using select_best_first_max [OF assms, of cur] by (simp add: score_def)

lemma Unitize_down:
  "Unitize (Vector3d 0 (- 1) 0) = (True, Vector3d 0 (- 1) 0)"
  "Unitize (Vector3d 0 (- 2) 0) = (True, Vector3d 0 (- 1) 0)"
  by (simp_all add: Unitize_def)

text \<open>Two candidates straight below the cursor tie; the first one is returned.\<close>

theorem selector_first_maximum_witness:
  "[Point3d 0 (- 1) 0, Point3d 0 (- 2) 0] \<noteq> [] \<and>
   score pad_A (Point3d 0 (- 1) 0) = score pad_A (Point3d 0 (- 2) 0) \<and>
   select_best pad_A [Point3d 0 (- 1) 0, Point3d 0 (- 2) 0] = Some (Point3d 0 (- 1) 0)"
proof -
  let ?cs = "[Point3d 0 (- 1) 0, Point3d 0 (- 2) 0]"
  have ne: "?cs \<noteq> []" by simp
  have tie: "score pad_A (Point3d 0 (- 1) 0) = score pad_A (Point3d 0 (- 2) 0)"
    by (simp add: score_def pad_A_def Unitize_down)
  from selector_first_maximum [OF ne, of pad_A] obtain k
    where k: "k < length ?cs" and sel: "select_best pad_A ?cs = Some (?cs ! k)"
      and first: "\<forall>j < k. score pad_A (?cs ! j) < score pad_A (?cs ! k)"
    by blast
  have "k = 0"
  proof (rule ccontr)
    assume "k \<noteq> 0"
    with k have "k = 1" by simp
    with first have "score pad_A (?cs ! 0) < score pad_A (?cs ! 1)" by simp
    with tie show False by simp
  qed
  with sel tie ne show ?thesis by simp
qed

lemma Length_psub_pos:
  assumes "0 < DistanceTo c cur"
  shows "Length (snd (Unitize (psub c cur))) = 1"
proof -
  have "DistanceTo c cur = Length (psub c cur)"
    by (subst DistanceTo_commute) (simp add: DistanceTo_def)
  with assms have "0 < Length (psub c cur)" by simp
  then show ?thesis by (rule Length_Unitize)
qed

text \<open>
  Claim C10 (the guard after the selection loop).  In an iteration whose candidate list
  is not empty, \<^verbatim>\<open>best_cand\<close> is assigned, the branch \<^verbatim>\<open>if best_cand\<close> is taken, and
  exactly one module is appended, with the iteration number as its creation index; the
  cursor moves to it.  Every score is at least \<open>-1\<close>, above the sentinel \<open>-999\<close>; when
  the cursor is a module of the colony, the growth vector of every candidate unitizes to
  length one, and so does the sun vector.
\<close>

theorem growing_iteration_appends:
  assumes "sense terrain (modules st) (current st) growth_directions \<noteq> []"
  shows "\<exists>best_cand.
           select_best (current st) (sense terrain (modules st) (current st) growth_directions)
             = Some best_cand \<and>
           growth_step terrain rng st i =
             Inr (st\<lparr>modules := modules st @ [best_cand], iterations := iterations st @ [i],
                     current := best_cand\<rparr>) \<and>
           (\<forall>c \<in> set (sense terrain (modules st) (current st) growth_directions).
              - 999 < (- 1 :: real) \<and> - 1 \<le> score (current st) c \<and>
              (current st \<in> set (modules st) \<longrightarrow>
                 Length (snd (Unitize (psub c (current st)))) = 1 \<and> Length sun_vec = 1))"
proof -
  let ?cands = "sense terrain (modules st) (current st) growth_directions"
  from growth_step_open [OF assms, of rng i] obtain best
    where "select_best (current st) ?cands = Some best"
      and "growth_step terrain rng st i =
             Inr (st\<lparr>modules := modules st @ [best], iterations := iterations st @ [i],
                     current := best\<rparr>)"
    by blast
  moreover have "\<forall>c \<in> set ?cands.
              - 999 < (- 1 :: real) \<and> - 1 \<le> score (current st) c \<and>
              (current st \<in> set (modules st) \<longrightarrow>
                 Length (snd (Unitize (psub c (current st)))) = 1 \<and> Length sun_vec = 1)"
  proof
    fix c assume c: "c \<in> set ?cands"
    have lo: "- 1 \<le> score (current st) c"
      using abs_score_le [of "current st" c] by linarith
    have "Length (snd (Unitize (psub c (current st)))) = 1" if "current st \<in> set (modules st)"
    proof -
      from sense_mem [OF c] obtain d
        where "check_direction terrain (modules st) (current st) d = Some c" by blast
      from check_direction_clear [OF this that]
      have "0 < DistanceTo c (current st)" by (simp add: min_dist_def)
      then show ?thesis by (rule Length_psub_pos)
    qed
    with lo show "- 999 < (- 1 :: real) \<and> - 1 \<le> score (current st) c \<and>
              (current st \<in> set (modules st) \<longrightarrow>
                 Length (snd (Unitize (psub c (current st)))) = 1 \<and> Length sun_vec = 1)"
      by (simp add: Length_sun_vec)
  qed
  ultimately show ?thesis by blast
qed

text \<open>The first iteration on the two pads: both accepted candidates are the far pad.\<close>

theorem growing_iteration_appends_witness:
  "sense two_pads (modules \<lparr>modules = [pad_A], iterations = [0], current = pad_A, draws = 0\<rparr>)
     (current \<lparr>modules = [pad_A], iterations = [0], current = pad_A, draws = 0\<rparr>)
     growth_directions = [pad_B, pad_B] \<and>
   [pad_B, pad_B] \<noteq> [] \<and>
   pad_A \<in> set [pad_A] \<and> pad_B \<in> set [pad_B, pad_B] \<and>
   growth_step two_pads (\<lambda>k. 0)
       \<lparr>modules = [pad_A], iterations = [0], current = pad_A, draws = 0\<rparr> 1
     = Inr \<lparr>modules = [pad_A, pad_B], iterations = [0, 1], current = pad_B, draws = 0\<rparr> \<and>
   - 1 \<le> score pad_A pad_B \<and> Length (snd (Unitize (psub pad_B pad_A))) = 1"
proof -
  let ?st = "\<lparr>modules = [pad_A], iterations = [0], current = pad_A, draws = 0\<rparr>"
  have s: "sense two_pads (modules ?st) (current ?st) growth_directions = [pad_B, pad_B]"
    by (simp add: sense_two_pads_first)
  then have ne: "sense two_pads (modules ?st) (current ?st) growth_directions \<noteq> []" by simp
  from growing_iteration_appends [OF ne, of "\<lambda>k. 0" 1] obtain best_cand
    where sel: "select_best (current ?st) (sense two_pads (modules ?st) (current ?st) growth_directions)
             = Some best_cand"
      and step: "growth_step two_pads (\<lambda>k. 0) ?st 1 =
             Inr (?st\<lparr>modules := modules ?st @ [best_cand], iterations := iterations ?st @ [1],
                     current := best_cand\<rparr>)"
      and sc: "\<forall>c \<in> set (sense two_pads (modules ?st) (current ?st) growth_directions).
              - 999 < (- 1 :: real) \<and> - 1 \<le> score (current ?st) c \<and>
              (current ?st \<in> set (modules ?st) \<longrightarrow>
                 Length (snd (Unitize (psub c (current ?st)))) = 1 \<and> Length sun_vec = 1)"
    by blast
  from sel have "best_cand = pad_B" by (simp add: sense_two_pads_first select_best_same)
  with step have "growth_step two_pads (\<lambda>k. 0) ?st 1
     = Inr \<lparr>modules = [pad_A, pad_B], iterations = [0, 1], current = pad_B, draws = 0\<rparr>"
    by simp
  moreover from sc have "- 1 \<le> score pad_A pad_B \<and> Length (snd (Unitize (psub pad_B pad_A))) = 1"
    unfolding s by simp
  ultimately show ?thesis using s by simp
qed

section \<open>The seed: slope and grounding\<close>

lemma growth_step_modules:
  assumes "colony_ok s" and "growth_step terrain rng s i = Inr s'"
  shows "modules s' = modules s \<or>
         (\<exists>best d. check_direction terrain (modules s) (current s) d = Some best \<and>
            modules s' = modules s @ [best])"
proof -
  from assms(1) have ne: "modules s \<noteq> []" by (simp add: colony_ok_def)
  from growth_step_cases [OF ne, of terrain rng i] show ?thesis
  proof (elim disjE conjE bexE)
    assume "growth_step terrain rng s i =
      Inr (s\<lparr>current := modules s ! (rng (draws s) mod length (modules s)),
              draws := Suc (draws s)\<rparr>)"
    with assms(2) show ?thesis by auto
  next
    fix best
    assume mem: "best \<in> set (sense terrain (modules s) (current s) growth_directions)"
      and st: "growth_step terrain rng s i =
        Inr (s\<lparr>modules := modules s @ [best], iterations := iterations s @ [i],
                current := best\<rparr>)"
    from sense_mem [OF mem] obtain d
      where "check_direction terrain (modules s) (current s) d = Some best" by blast
    with st assms(2) show ?thesis by auto
  qed
qed

lemma check_direction_slope:
  assumes "check_direction terrain ms cur d = Some c"
  shows "slope_checked terrain c"
  using check_direction_Some [OF assms] unfolding slope_checked_def by blast

lemma run_slope:
  "\<exists>st. run_state terrain seed_point n rng = Inr st \<and>
        run_simulation terrain seed_point n rng = Inr (modules st) \<and> colony_ok st \<and>
        (\<forall>p \<in> set (tl (modules st)). slope_checked terrain p)"
proof (rule run_invariant [where P = "\<lambda>s. \<forall>p \<in> set (tl (modules s)). slope_checked terrain p"])
  show "\<forall>p \<in> set (tl (modules (init_state terrain seed_point))). slope_checked terrain p"
    by (simp add: init_state_def Let_def)
next
  fix s i s'
  assume ok: "colony_ok s" and P: "\<forall>p \<in> set (tl (modules s)). slope_checked terrain p"
    and st: "growth_step terrain rng s i = Inr s'"
  from ok have ne: "modules s \<noteq> []" by (simp add: colony_ok_def)
  from growth_step_modules [OF ok st] show "\<forall>p \<in> set (tl (modules s')). slope_checked terrain p"
  proof (elim disjE exE conjE)
    assume "modules s' = modules s"
    with P show ?thesis by simp
  next
    fix best d
    assume "check_direction terrain (modules s) (current s) d = Some best"
      and "modules s' = modules s @ [best]"
    with P ne show ?thesis by (auto dest: check_direction_slope)
  qed
qed

text \<open>
  Claim C2 (slope invariant), for the modules the growth loop places.  Every module
  after the first was accepted by the sensing loop: it is the
  position of a mesh point found by a projection with radius 1000, and the angle the
  library reports between the normal at that mesh point and the Z axis is at most
  \<open>max_slope_deg\<close> degrees.
\<close>

theorem slope_invariant_grown:
  "\<exists>colony. run_simulation terrain seed_point max_modules rng = Inr colony \<and>
     (\<forall>p \<in> set (tl colony).
        \<exists>q mp. ClosestMeshPoint terrain q 1000 = Some mp \<and> Point mp = p \<and>
          degrees (VectorAngle (NormalAt terrain mp) ZAxis) \<le> max_slope_deg)"
  using run_slope [of terrain seed_point max_modules rng] unfolding slope_checked_def by blast

text \<open>On the two pads the second module is the far pad, grounded on level ground.\<close>

theorem slope_invariant_grown_witness:
  "run_simulation two_pads pad_A 1 (\<lambda>k. 0) = Inr [pad_A, pad_B] \<and>
   pad_B \<in> set (tl [pad_A, pad_B]) \<and>
   (\<exists>q mp. ClosestMeshPoint two_pads q 1000 = Some mp \<and> Point mp = pad_B \<and>
      degrees (VectorAngle (NormalAt two_pads mp) ZAxis) \<le> max_slope_deg)"
proof -
  from slope_invariant_grown [of two_pads pad_A 1 "\<lambda>k. 0"] obtain colony
    where run: "run_simulation two_pads pad_A 1 (\<lambda>k. 0) = Inr colony"
      and sl: "\<forall>p \<in> set (tl colony).
        \<exists>q mp. ClosestMeshPoint two_pads q 1000 = Some mp \<and> Point mp = p \<and>
          degrees (VectorAngle (NormalAt two_pads mp) ZAxis) \<le> max_slope_deg"
    by blast
  from run have "colony = [pad_A, pad_B]" by (simp add: run_sim_two_pads_1)
  with sl show ?thesis by (simp add: run_sim_two_pads_1)
qed

text \<open>
  The claim as stated includes the seed.  On the vertical wall the seed is grounded where
  the normal is horizontal, 90 degrees from the Z axis, and it is the first module of the
  returned colony.
\<close>

theorem slope_invariant_seed_counterexample:
  "run_simulation wall_terrain pad_A 1 zero_draws = Inr [pad_A] \<and>
   ClosestMeshPoint wall_terrain pad_A 1000000 = Some \<lparr>Point = pad_A, FaceIndex = 0\<rparr> \<and>
   degrees (VectorAngle (NormalAt wall_terrain \<lparr>Point = pad_A, FaceIndex = 0\<rparr>) ZAxis) = 90 \<and>
   \<not> (90 \<le> max_slope_deg)"
proof -
  have "run_simulation wall_terrain pad_A 1 zero_draws = Inr [pad_A]"
    by (simp add: run_simulation_def run_wall_1)
  moreover have "ClosestMeshPoint wall_terrain pad_A 1000000 = Some \<lparr>Point = pad_A, FaceIndex = 0\<rparr>"
    by (simp add: wall_terrain_def)
  moreover have "degrees (VectorAngle (NormalAt wall_terrain \<lparr>Point = pad_A, FaceIndex = 0\<rparr>) ZAxis) = 90"
    by (simp add: wall_terrain_def VectorAngle_side degrees_def)
  moreover have "\<not> (90 \<le> max_slope_deg)"
    by (simp add: max_slope_deg_def)
  ultimately show ?thesis by blast
qed

text \<open>
  Claim C3 (ungroundable seed), as the code has it.  When the projection of the seed
  with radius 1000000 returns nothing, no error is raised: the raw seed point becomes
  the first module and the cursor, with creation index 0, and the growth loop runs
  from it.
\<close>

theorem ungrounded_seed_is_used:
  assumes "ClosestMeshPoint terrain seed_point 1000000 = None"
  shows "init_state terrain seed_point
           = \<lparr>modules = [seed_point], iterations = [0], current = seed_point, draws = 0\<rparr> \<and>
         (\<exists>rest. run_simulation terrain seed_point max_modules rng = Inr (seed_point # rest))"
proof -
  have init: "init_state terrain seed_point
           = \<lparr>modules = [seed_point], iterations = [0], current = seed_point, draws = 0\<rparr>"
    using assms by (simp add: init_state_def)
  have "\<exists>st. run_state terrain seed_point max_modules rng = Inr st \<and>
        run_simulation terrain seed_point max_modules rng = Inr (modules st) \<and> colony_ok st \<and>
        (\<exists>rest. modules st = seed_point # rest)"
  proof (rule run_invariant [where P = "\<lambda>s. \<exists>rest. modules s = seed_point # rest"])
    show "\<exists>rest. modules (init_state terrain seed_point) = seed_point # rest"
      by (simp add: init)
  next
    fix s i s'
    assume ok: "colony_ok s" and P: "\<exists>rest. modules s = seed_point # rest"
      and st: "growth_step terrain rng s i = Inr s'"
    from growth_step_modules [OF ok st] P show "\<exists>rest. modules s' = seed_point # rest"
      by auto
  qed
  with init show ?thesis by auto
qed

text \<open>On the terrain without surface the run returns the raw seed as its colony.\<close>

theorem ungrounded_seed_is_used_witness:
  "ClosestMeshPoint void_terrain pad_A 1000000 = None \<and>
   init_state void_terrain pad_A
     = \<lparr>modules = [pad_A], iterations = [0], current = pad_A, draws = 0\<rparr> \<and>
   (\<exists>rest. run_simulation void_terrain pad_A 1 (\<lambda>k. 0) = Inr (pad_A # rest))"
proof -
  have none: "ClosestMeshPoint void_terrain pad_A 1000000 = None"
    by (simp add: void_terrain_def)
  from ungrounded_seed_is_used [OF none, of 1 "\<lambda>k. 0"] none show ?thesis by simp
qed

text \<open>
  The claim as stated asks for a fatal error.  On the terrain without surface the seed
  cannot be grounded, and the run returns normally, with the raw seed as its colony.
\<close>

theorem seed_projection_error_counterexample:
  "ClosestMeshPoint void_terrain pad_A 1000000 = None \<and>
   run_simulation void_terrain pad_A 1 zero_draws = Inr [pad_A]"
proof -
  have "ClosestMeshPoint void_terrain pad_A 1000000 = None"
    by (simp add: void_terrain_def)
  moreover have "run_simulation void_terrain pad_A 1 zero_draws = Inr [pad_A]"
    by (simp add: run_simulation_def run_void_1)
  ultimately show ?thesis by blast
qed

section \<open>The iteration budget\<close>

lemma growth_step_shape:
  assumes "colony_ok s" and "growth_step terrain rng s i = Inr s'"
  shows "(blocked terrain s \<and> modules s' = modules s \<and> iterations s' = iterations s \<and>
          current s' = modules s ! (rng (draws s) mod length (modules s)) \<and>
          draws s' = Suc (draws s)) \<or>
         (\<not> blocked terrain s \<and>
          (\<exists>best. modules s' = modules s @ [best] \<and> iterations s' = iterations s @ [i] \<and>
             current s' = best \<and> draws s' = draws s))"
proof -
  from assms(1) have ne: "modules s \<noteq> []" by (simp add: colony_ok_def)
  show ?thesis
  proof (cases "blocked terrain s")
    case True
    then have "sense terrain (modules s) (current s) growth_directions = []"
      by (simp add: blocked_def)
    from growth_step_blocked [OF this ne, of rng i] assms(2) True show ?thesis by auto
  next
    case False
    then have "sense terrain (modules s) (current s) growth_directions \<noteq> []"
      by (simp add: blocked_def)
    from growth_step_open [OF this, of rng i] assms(2) False show ?thesis by auto
  qed
qed

lemma growth_trace_count:
  assumes "colony_ok st"
  shows "length (modules (last (growth_trace terrain rng st its))) +
           length (filter (blocked terrain) (butlast (growth_trace terrain rng st its)))
         = length (modules st) + length its"
  using assms
proof (induction its arbitrary: st)
  case Nil
  then show ?case by simp
next
  case (Cons i its)
  from growth_step_ok [OF Cons.prems, of terrain rng i] obtain s'
    where s': "growth_step terrain rng st i = Inr s'" "colony_ok s'" by blast
  have ne: "growth_trace terrain rng s' its \<noteq> []"
    using growth_trace_steps [OF s'(2), of terrain rng its] by auto
  have tr: "growth_trace terrain rng st (i # its) = st # growth_trace terrain rng s' its"
    using s' by simp
  from growth_step_shape [OF Cons.prems s'(1)] Cons.IH [OF s'(2)] ne
  show ?case unfolding tr by auto
qed

lemma run_trace_steps:
  "length (run_trace terrain seed_point n rng) = Suc (nat n) \<and>
   run_trace terrain seed_point n rng ! 0 = init_state terrain seed_point \<and>
   run_state terrain seed_point n rng = Inr (last (run_trace terrain seed_point n rng)) \<and>
   (\<forall>k < nat n.
      colony_ok (run_trace terrain seed_point n rng ! k) \<and>
      growth_step terrain rng (run_trace terrain seed_point n rng ! k) (int k + 1)
        = Inr (run_trace terrain seed_point n rng ! Suc k))"
proof -
  have nth: "[1..n] ! k = int k + 1" if "k < nat n" for k
    using that by simp
  from growth_trace_steps [where st = "init_state terrain seed_point" and terrain = terrain
      and rng = rng and its = "[1..n]", OF colony_ok_init] nth
  show ?thesis unfolding run_trace_def run_state_def by (simp add: add.commute)
qed

text \<open>
  Claim C4 (budget).  With a budget \<open>N \<ge> 0\<close> the main loop runs exactly \<open>N\<close> iterations,
  numbered \<open>1 .. N\<close>: the trace of the run has \<open>N + 1\<close> states, each obtained from the
  one before by one pass of the loop.  The returned colony has at most \<open>N + 1\<close>
  modules, and exactly \<open>N + 1\<close> minus the number of blocked iterations.
\<close>

theorem budget_iterations:
  assumes "0 \<le> N"
  shows "int (length (run_trace terrain seed_point N rng)) = N + 1 \<and>
         (\<forall>k < nat N.
            growth_step terrain rng (run_trace terrain seed_point N rng ! k) (int k + 1)
              = Inr (run_trace terrain seed_point N rng ! Suc k)) \<and>
         (\<exists>colony.
            run_simulation terrain seed_point N rng = Inr colony \<and>
            colony = modules (last (run_trace terrain seed_point N rng)) \<and>
            int (length colony) \<le> N + 1 \<and>
            int (length colony) +
              int (length (filter (blocked terrain) (butlast (run_trace terrain seed_point N rng))))
              = N + 1)"
proof -
  let ?tr = "run_trace terrain seed_point N rng"
  note steps = run_trace_steps [of terrain seed_point N rng]
  have len: "int (length ?tr) = N + 1" using steps assms by simp
  have run: "run_simulation terrain seed_point N rng = Inr (modules (last ?tr))"
    using steps by (simp add: run_simulation_def)
  have "length (modules (last ?tr)) + length (filter (blocked terrain) (butlast ?tr))
      = length (modules (init_state terrain seed_point)) + length [1..N]"
    unfolding run_trace_def by (rule growth_trace_count [OF colony_ok_init])
  then have cnt: "int (length (modules (last ?tr))) +
      int (length (filter (blocked terrain) (butlast ?tr))) = N + 1"
    using assms by (simp add: init_state_def Let_def)
  then have "int (length (modules (last ?tr))) \<le> N + 1" by linarith
  with len run cnt steps show ?thesis by simp
qed

text \<open>
  On the two pads with budget 2 the first iteration grows and the second is blocked:
  three states, two modules.
\<close>

theorem budget_iterations_witness:
  "(0::int) \<le> 2 \<and>
   int (length (run_trace two_pads pad_A 2 (\<lambda>k. 0))) = 2 + 1 \<and>
   (0::nat) < nat 2 \<and>
   growth_step two_pads (\<lambda>k. 0) (run_trace two_pads pad_A 2 (\<lambda>k. 0) ! 0) (int 0 + 1)
     = Inr (run_trace two_pads pad_A 2 (\<lambda>k. 0) ! Suc 0) \<and>
   run_simulation two_pads pad_A 2 (\<lambda>k. 0) = Inr [pad_A, pad_B] \<and>
   int (length [pad_A, pad_B]) \<le> 2 + 1 \<and>
   int (length [pad_A, pad_B]) +
     int (length (filter (blocked two_pads) (butlast (run_trace two_pads pad_A 2 (\<lambda>k. 0)))))
     = 2 + 1"
proof -
  have h: "(0::int) \<le> 2" by simp
  have run: "run_simulation two_pads pad_A 2 (\<lambda>k. 0) = Inr [pad_A, pad_B]"
    by (simp add: run_simulation_def run_two_pads_2)
  from budget_iterations [OF h, of two_pads pad_A "\<lambda>k. 0"] obtain colony
    where len: "int (length (run_trace two_pads pad_A 2 (\<lambda>k. 0))) = 2 + 1"
      and st: "\<forall>k < nat 2.
        growth_step two_pads (\<lambda>k. 0) (run_trace two_pads pad_A 2 (\<lambda>k. 0) ! k) (int k + 1)
          = Inr (run_trace two_pads pad_A 2 (\<lambda>k. 0) ! Suc k)"
      and c: "run_simulation two_pads pad_A 2 (\<lambda>k. 0) = Inr colony"
      and le: "int (length colony) \<le> 2 + 1"
      and cnt: "int (length colony) +
        int (length (filter (blocked two_pads) (butlast (run_trace two_pads pad_A 2 (\<lambda>k. 0)))))
        = 2 + 1"
    by blast
  from c run have "colony = [pad_A, pad_B]" by simp
  moreover have pos: "(0::nat) < nat 2" by simp
  moreover from st pos
  have "growth_step two_pads (\<lambda>k. 0) (run_trace two_pads pad_A 2 (\<lambda>k. 0) ! 0) (int 0 + 1)
     = Inr (run_trace two_pads pad_A 2 (\<lambda>k. 0) ! Suc 0)"
    by blast
  ultimately show ?thesis using len le cnt run h by blast
qed

section \<open>The colony only grows\<close>

lemma growth_step_prefix:
  assumes "colony_ok s" and "growth_step terrain rng s i = Inr s'"
  shows "prefix (modules s) (modules s') \<and> prefix (iterations s) (iterations s')"
  using growth_step_shape [OF assms] by auto

lemma growth_loop_sorted:
  assumes "colony_ok st" and "sorted_wrt (<) (iterations st @ its)"
    and "growth_loop terrain rng st its = Inr st'"
  shows "sorted_wrt (<) (iterations st')"
  using assms
proof (induction its arbitrary: st)
  case Nil
  then show ?case by simp
next
  case (Cons i its)
  from growth_step_ok [OF Cons.prems(1), of terrain rng i] obtain s'
    where s': "growth_step terrain rng st i = Inr s'" "colony_ok s'" by blast
  from growth_step_shape [OF Cons.prems(1) s'(1)] Cons.prems(2)
  have "sorted_wrt (<) (iterations s' @ its)"
    by (auto simp: sorted_wrt_append)
  moreover from Cons.prems(3) s' have "growth_loop terrain rng s' its = Inr st'" by simp
  ultimately show ?case using Cons.IH [OF s'(2)] by blast
qed

lemma run_sorted:
  assumes "run_state terrain seed_point n rng = Inr st"
  shows "sorted_wrt (<) (iterations st)"
proof (rule growth_loop_sorted [OF colony_ok_init _ assms [unfolded run_state_def]])
  show "sorted_wrt (<) (iterations (init_state terrain seed_point) @ [1..n])"
    by (simp add: init_state_def Let_def)
qed

lemma run_heads:
  "\<exists>st. run_state terrain seed_point n rng = Inr st \<and>
        run_simulation terrain seed_point n rng = Inr (modules st) \<and> colony_ok st \<and>
        (hd (modules st) = current (init_state terrain seed_point) \<and> hd (iterations st) = 0)"
proof (rule run_invariant
    [where P = "\<lambda>s. hd (modules s) = current (init_state terrain seed_point) \<and>
                   hd (iterations s) = 0"])
  show "hd (modules (init_state terrain seed_point)) = current (init_state terrain seed_point) \<and>
        hd (iterations (init_state terrain seed_point)) = 0"
    by (simp add: init_state_def Let_def)
next
  fix s i s'
  assume ok: "colony_ok s"
    and P: "hd (modules s) = current (init_state terrain seed_point) \<and> hd (iterations s) = 0"
    and st: "growth_step terrain rng s i = Inr s'"
  from ok have "modules s \<noteq> []" "iterations s \<noteq> []" by (auto simp: colony_ok_def)
  with growth_step_shape [OF ok st] P
  show "hd (modules s') = current (init_state terrain seed_point) \<and> hd (iterations s') = 0"
    by auto
qed

text \<open>
  Claim C8 (append-only colony), as the code has it.  Along the trace of a run, the
  colony and the list of creation indices before an iteration are prefixes of what they
  are after it: nothing is removed, changed or reordered, and the length never
  decreases.  The first module of the final colony is the initial cursor, with creation
  index 0: the grounded seed when the seed projection succeeds, the raw seed point when
  it returns nothing.  Every module has a creation index, and the creation indices are
  strictly increasing along the returned colony.
\<close>

theorem colony_append_only:
  "\<exists>final.
     run_state terrain seed_point max_modules rng = Inr final \<and>
     run_simulation terrain seed_point max_modules rng = Inr (modules final) \<and>
     final = last (run_trace terrain seed_point max_modules rng) \<and>
     (\<forall>k. Suc k < length (run_trace terrain seed_point max_modules rng) \<longrightarrow>
        prefix (modules (run_trace terrain seed_point max_modules rng ! k))
               (modules (run_trace terrain seed_point max_modules rng ! Suc k)) \<and>
        prefix (iterations (run_trace terrain seed_point max_modules rng ! k))
               (iterations (run_trace terrain seed_point max_modules rng ! Suc k)) \<and>
        length (modules (run_trace terrain seed_point max_modules rng ! k))
          \<le> length (modules (run_trace terrain seed_point max_modules rng ! Suc k))) \<and>
     modules final \<noteq> [] \<and>
     hd (modules final) = current (init_state terrain seed_point) \<and>
     (\<forall>mp. ClosestMeshPoint terrain seed_point 1000000 = Some mp \<longrightarrow>
        hd (modules final) = Point mp) \<and>
     (ClosestMeshPoint terrain seed_point 1000000 = None \<longrightarrow>
        hd (modules final) = seed_point) \<and>
     hd (iterations final) = 0 \<and>
     length (iterations final) = length (modules final) \<and>
     sorted_wrt (<) (iterations final)"
proof -
  let ?tr = "run_trace terrain seed_point max_modules rng"
  note steps = run_trace_steps [of terrain seed_point max_modules rng]
  from run_heads [of terrain seed_point max_modules rng] obtain final :: state
    where run: "run_state terrain seed_point max_modules rng = Inr final"
      and sim: "run_simulation terrain seed_point max_modules rng = Inr (modules final)"
      and ok: "colony_ok final"
      and hd: "hd (modules final) = current (init_state terrain seed_point)"
      and hd0: "hd (iterations final) = 0"
    by blast
  have last: "final = last ?tr" using steps run by simp
  have pre: "\<forall>k. Suc k < length ?tr \<longrightarrow>
        prefix (modules (?tr ! k)) (modules (?tr ! Suc k)) \<and>
        prefix (iterations (?tr ! k)) (iterations (?tr ! Suc k)) \<and>
        length (modules (?tr ! k)) \<le> length (modules (?tr ! Suc k))"
  proof (intro allI impI)
    fix k assume "Suc k < length ?tr"
    with steps have "colony_ok (?tr ! k)"
      and "growth_step terrain rng (?tr ! k) (int k + 1) = Inr (?tr ! Suc k)"
      by simp_all
    from growth_step_prefix [OF this]
    show "prefix (modules (?tr ! k)) (modules (?tr ! Suc k)) \<and>
        prefix (iterations (?tr ! k)) (iterations (?tr ! Suc k)) \<and>
        length (modules (?tr ! k)) \<le> length (modules (?tr ! Suc k))"
      by (simp add: prefix_length_le)
  qed
  have seed: "\<forall>mp. ClosestMeshPoint terrain seed_point 1000000 = Some mp \<longrightarrow>
        hd (modules final) = Point mp"
    using hd by (simp add: init_state_def Let_def)
  have raw: "ClosestMeshPoint terrain seed_point 1000000 = None \<longrightarrow>
        hd (modules final) = seed_point"
    using hd by (simp add: init_state_def Let_def)
  from ok have "modules final \<noteq> []" "length (iterations final) = length (modules final)"
    by (simp_all add: colony_ok_def)
  with run sim last pre hd seed raw hd0 run_sorted [OF run]
  have "run_state terrain seed_point max_modules rng = Inr final \<and>
     run_simulation terrain seed_point max_modules rng = Inr (modules final) \<and>
     final = last ?tr \<and>
     (\<forall>k. Suc k < length ?tr \<longrightarrow>
        prefix (modules (?tr ! k)) (modules (?tr ! Suc k)) \<and>
        prefix (iterations (?tr ! k)) (iterations (?tr ! Suc k)) \<and>
        length (modules (?tr ! k)) \<le> length (modules (?tr ! Suc k))) \<and>
     modules final \<noteq> [] \<and>
     hd (modules final) = current (init_state terrain seed_point) \<and>
     (\<forall>mp. ClosestMeshPoint terrain seed_point 1000000 = Some mp \<longrightarrow>
        hd (modules final) = Point mp) \<and>
     (ClosestMeshPoint terrain seed_point 1000000 = None \<longrightarrow>
        hd (modules final) = seed_point) \<and>
     hd (iterations final) = 0 \<and>
     length (iterations final) = length (modules final) \<and>
     sorted_wrt (<) (iterations final)"
    by (intro conjI)
  then show ?thesis by (rule exI)
qed

text \<open>
  The run on the two pads with budget 2: the colony grows from one module to two and
  then stays; the seed pad, onto which the seed projects, stays first.  On the terrain
  without surface the seed cannot be grounded and the raw seed point is first.
\<close>

theorem colony_append_only_witness:
  "Suc 0 < length (run_trace two_pads pad_A 2 (\<lambda>k. 0)) \<and>
   prefix (modules (run_trace two_pads pad_A 2 (\<lambda>k. 0) ! 0))
          (modules (run_trace two_pads pad_A 2 (\<lambda>k. 0) ! Suc 0)) \<and>
   modules (run_trace two_pads pad_A 2 (\<lambda>k. 0) ! 0) = [pad_A] \<and>
   modules (run_trace two_pads pad_A 2 (\<lambda>k. 0) ! Suc 0) = [pad_A, pad_B] \<and>
   ClosestMeshPoint two_pads pad_A 1000000 = Some \<lparr>Point = pad_A, FaceIndex = 0\<rparr> \<and>
   run_simulation two_pads pad_A 2 (\<lambda>k. 0) = Inr [pad_A, pad_B] \<and>
   hd [pad_A, pad_B] = Point \<lparr>Point = pad_A, FaceIndex = 0\<rparr> \<and>
   ClosestMeshPoint void_terrain pad_B 1000000 = None \<and>
   run_simulation void_terrain pad_B 1 zero_draws = Inr [pad_B] \<and>
   hd [pad_B] = pad_B"
proof -
  let ?tr = "run_trace two_pads pad_A 2 (\<lambda>k. 0)"
  have tr: "?tr =
     [\<lparr>modules = [pad_A], iterations = [0], current = pad_A, draws = 0\<rparr>,
      \<lparr>modules = [pad_A, pad_B], iterations = [0, 1], current = pad_B, draws = 0\<rparr>,
      \<lparr>modules = [pad_A, pad_B], iterations = [0, 1],
            current = [pad_A, pad_B] ! (0 mod 2), draws = Suc 0\<rparr>]"
    by (rule trace_two_pads_2)
  have len: "Suc 0 < length ?tr" by (simp add: tr)
  have m0: "modules (?tr ! 0) = [pad_A]" and m1: "modules (?tr ! Suc 0) = [pad_A, pad_B]"
    by (simp_all add: tr)
  have cl: "ClosestMeshPoint two_pads pad_A 1000000 = Some \<lparr>Point = pad_A, FaceIndex = 0\<rparr>"
    by (simp add: two_pads_def pad_A_def)
  have run: "run_simulation two_pads pad_A 2 (\<lambda>k. 0) = Inr [pad_A, pad_B]"
    by (simp add: run_simulation_def run_two_pads_2)
  from colony_append_only [of two_pads pad_A 2 "\<lambda>k. 0"] obtain final :: state
    where sim: "run_simulation two_pads pad_A 2 (\<lambda>k. 0) = Inr (modules final)"
      and pre: "\<forall>k. Suc k < length ?tr \<longrightarrow>
        prefix (modules (?tr ! k)) (modules (?tr ! Suc k)) \<and>
        prefix (iterations (?tr ! k)) (iterations (?tr ! Suc k)) \<and>
        length (modules (?tr ! k)) \<le> length (modules (?tr ! Suc k))"
      and seed: "\<forall>mp. ClosestMeshPoint two_pads pad_A 1000000 = Some mp \<longrightarrow>
        hd (modules final) = Point mp"
    by (elim exE conjE) (rule that)
  from pre len have p: "prefix (modules (?tr ! 0)) (modules (?tr ! Suc 0))" by blast
  from sim run have "modules final = [pad_A, pad_B]" by simp
  with seed cl have g: "hd [pad_A, pad_B] = Point \<lparr>Point = pad_A, FaceIndex = 0\<rparr>"
    by metis
  have none: "ClosestMeshPoint void_terrain pad_B 1000000 = None"
    by (simp add: void_terrain_def)
  have vrun: "run_simulation void_terrain pad_B 1 zero_draws = Inr [pad_B]"
    by (simp add: run_simulation_def run_void_1)
  from colony_append_only [of void_terrain pad_B 1 zero_draws] obtain vfinal :: state
    where vsim: "run_simulation void_terrain pad_B 1 zero_draws = Inr (modules vfinal)"
      and vraw: "ClosestMeshPoint void_terrain pad_B 1000000 = None \<longrightarrow>
        hd (modules vfinal) = pad_B"
    by (elim exE conjE) (rule that)
  from vsim vrun have "modules vfinal = [pad_B]" by simp
  with vraw none have r: "hd [pad_B] = pad_B" by metis
  from len p m0 m1 cl run g none vrun r show ?thesis by (intro conjI)
qed

text \<open>
  The claim as stated makes the first element the grounded seed.  On the terrain
  without surface neither projection radius grounds the seed, and the first (and only)
  element of the returned colony is the raw seed point.
\<close>

theorem first_module_raw_seed_counterexample:
  "ClosestMeshPoint void_terrain pad_B 1000000 = None \<and>
   ClosestMeshPoint void_terrain pad_B 1000 = None \<and>
   run_state void_terrain pad_B 1 zero_draws
     = Inr \<lparr>modules = [pad_B], iterations = [0], current = pad_B, draws = Suc 0\<rparr> \<and>
   run_simulation void_terrain pad_B 1 zero_draws = Inr [pad_B] \<and>
   hd [pad_B] = pad_B"
proof -
  have "ClosestMeshPoint void_terrain pad_B 1000000 = None"
    and "ClosestMeshPoint void_terrain pad_B 1000 = None"
    by (simp_all add: void_terrain_def)
  moreover have "run_state void_terrain pad_B 1 zero_draws
     = Inr \<lparr>modules = [pad_B], iterations = [0], current = pad_B, draws = Suc 0\<rparr>"
    by (rule run_void_1)
  moreover have "run_simulation void_terrain pad_B 1 zero_draws = Inr [pad_B]"
    by (simp add: run_simulation_def run_void_1)
  moreover have "hd [pad_B] = pad_B" by simp
  ultimately show ?thesis by (intro conjI)
qed

section \<open>Blocked iterations and the random source\<close>

lemma sense_append:
  "sense terrain ms cur (xs @ ys) = sense terrain ms cur xs @ sense terrain ms cur ys"
  by (induction xs) (auto split: option.splits)

lemma sense_skips_failure:
  assumes "ClosestMeshPoint terrain (translate cur d) 1000 = None"
  shows "sense terrain ms cur (ds1 @ d # ds2) = sense terrain ms cur ds1 @ sense terrain ms cur ds2"
proof -
  have "check_direction terrain ms cur d = None"
    using assms by (simp add: check_direction_def)
  then show ?thesis by (simp add: sense_append)
qed

text \<open>
  Claim C7 (local failures and the blocked iteration).  No run raises an error.  In every
  iteration of a run in which no candidate is accepted, whatever the reason, the colony
  and the creation indices stay as they are and the cursor becomes the module of the
  current colony that the random source selects.  A direction whose projection fails
  contributes nothing to the candidates and leaves the candidates of the other
  directions as they are.  (That the selection is uniformly distributed is a statement
  about the generator behind \<^verbatim>\<open>random.choice\<close>, which the model takes as a given
  sequence of draws.)
\<close>

theorem blocked_iteration_backtracks:
  "(\<exists>colony. run_simulation terrain seed_point max_modules rng = Inr colony) \<and>
   (\<forall>k. Suc k < length (run_trace terrain seed_point max_modules rng) \<and>
        blocked terrain (run_trace terrain seed_point max_modules rng ! k) \<longrightarrow>
        modules (run_trace terrain seed_point max_modules rng ! Suc k)
          = modules (run_trace terrain seed_point max_modules rng ! k) \<and>
        iterations (run_trace terrain seed_point max_modules rng ! Suc k)
          = iterations (run_trace terrain seed_point max_modules rng ! k) \<and>
        current (run_trace terrain seed_point max_modules rng ! Suc k)
          = modules (run_trace terrain seed_point max_modules rng ! k) !
              (rng (draws (run_trace terrain seed_point max_modules rng ! k)) mod
                 length (modules (run_trace terrain seed_point max_modules rng ! k))) \<and>
        current (run_trace terrain seed_point max_modules rng ! Suc k)
          \<in> set (modules (run_trace terrain seed_point max_modules rng ! k))) \<and>
   (\<forall>ms cur ds1 d ds2.
      ClosestMeshPoint terrain (translate cur d) 1000 = None \<longrightarrow>
      sense terrain ms cur (ds1 @ d # ds2)
        = sense terrain ms cur ds1 @ sense terrain ms cur ds2)"
proof -
  let ?tr = "run_trace terrain seed_point max_modules rng"
  note steps = run_trace_steps [of terrain seed_point max_modules rng]
  have noerr: "\<exists>colony. run_simulation terrain seed_point max_modules rng = Inr colony"
    using steps by (simp add: run_simulation_def)
  have bt: "\<forall>k. Suc k < length ?tr \<and> blocked terrain (?tr ! k) \<longrightarrow>
        modules (?tr ! Suc k) = modules (?tr ! k) \<and>
        iterations (?tr ! Suc k) = iterations (?tr ! k) \<and>
        current (?tr ! Suc k)
          = modules (?tr ! k) ! (rng (draws (?tr ! k)) mod length (modules (?tr ! k))) \<and>
        current (?tr ! Suc k) \<in> set (modules (?tr ! k))"
  proof (intro allI impI)
    fix k assume k: "Suc k < length ?tr \<and> blocked terrain (?tr ! k)"
    with steps have ok: "colony_ok (?tr ! k)"
      and st: "growth_step terrain rng (?tr ! k) (int k + 1) = Inr (?tr ! Suc k)"
      by simp_all
    from ok have "modules (?tr ! k) \<noteq> []" by (simp add: colony_ok_def)
    then have "modules (?tr ! k) ! (rng (draws (?tr ! k)) mod length (modules (?tr ! k)))
        \<in> set (modules (?tr ! k))"
      by simp
    with growth_step_shape [OF ok st] k
    show "modules (?tr ! Suc k) = modules (?tr ! k) \<and>
        iterations (?tr ! Suc k) = iterations (?tr ! k) \<and>
        current (?tr ! Suc k)
          = modules (?tr ! k) ! (rng (draws (?tr ! k)) mod length (modules (?tr ! k))) \<and>
        current (?tr ! Suc k) \<in> set (modules (?tr ! k))"
      by auto
  qed
  have "\<forall>ms cur ds1 d ds2.
      ClosestMeshPoint terrain (translate cur d) 1000 = None \<longrightarrow>
      sense terrain ms cur (ds1 @ d # ds2)
        = sense terrain ms cur ds1 @ sense terrain ms cur ds2"
    by (blast intro: sense_skips_failure)
  with noerr bt show ?thesis by blast
qed

text \<open>
  The second iteration on the two pads is blocked by collisions: with the draw 1 the
  cursor returns to the far pad and the colony stays.  On the terrain without surface
  a failing direction is dropped.
\<close>

theorem blocked_iteration_backtracks_witness:
  "Suc 1 < length (run_trace two_pads pad_A 2 (\<lambda>k. 3)) \<and>
   blocked two_pads (run_trace two_pads pad_A 2 (\<lambda>k. 3) ! 1) \<and>
   modules (run_trace two_pads pad_A 2 (\<lambda>k. 3) ! 1) = [pad_A, pad_B] \<and>
   modules (run_trace two_pads pad_A 2 (\<lambda>k. 3) ! Suc 1) = [pad_A, pad_B] \<and>
   current (run_trace two_pads pad_A 2 (\<lambda>k. 3) ! Suc 1) = pad_B \<and>
   pad_B \<in> set [pad_A, pad_B] \<and>
   ClosestMeshPoint void_terrain (translate pad_A (Vector3d (7 / 2) 0 0)) 1000 = None \<and>
   sense void_terrain [pad_A] pad_A ([Vector3d 0 1 0] @ Vector3d (7 / 2) 0 0 # [])
     = sense void_terrain [pad_A] pad_A [Vector3d 0 1 0] @ sense void_terrain [pad_A] pad_A []"
proof -
  let ?tr = "run_trace two_pads pad_A 2 (\<lambda>k. 3)"
  have tr: "?tr =
     [\<lparr>modules = [pad_A], iterations = [0], current = pad_A, draws = 0\<rparr>,
      \<lparr>modules = [pad_A, pad_B], iterations = [0, 1], current = pad_B, draws = 0\<rparr>,
      \<lparr>modules = [pad_A, pad_B], iterations = [0, 1],
            current = [pad_A, pad_B] ! (3 mod 2), draws = Suc 0\<rparr>]"
    by (rule trace_two_pads_2)
  have len: "Suc 1 < length ?tr" by (simp only: tr) simp
  have bl: "blocked two_pads (?tr ! 1)"
    by (simp only: tr) (simp add: blocked_def sense_two_pads_second)
  have m1: "modules (?tr ! 1) = [pad_A, pad_B]" by (simp only: tr) simp
  have b: "current (?tr ! Suc 1) = pad_B" by (simp only: tr) simp
  have none: "ClosestMeshPoint void_terrain (translate pad_A (Vector3d (7 / 2) 0 0)) 1000 = None"
    by (simp add: void_terrain_def)
  note inst = blocked_iteration_backtracks [of two_pads pad_A 2 "\<lambda>k. 3"]
  from inst len bl
  have r: "modules (?tr ! Suc 1) = modules (?tr ! 1)"
    and c: "current (?tr ! Suc 1) \<in> set (modules (?tr ! 1))"
    by blast+
  from r have a: "modules (?tr ! Suc 1) = [pad_A, pad_B]" by (simp only: m1)
  from c have c': "pad_B \<in> set [pad_A, pad_B]" by (simp only: m1 b)
  from blocked_iteration_backtracks [of void_terrain pad_A 2 "\<lambda>k. 3"] none
  have d: "sense void_terrain [pad_A] pad_A ([Vector3d 0 1 0] @ Vector3d (7 / 2) 0 0 # [])
     = sense void_terrain [pad_A] pad_A [Vector3d 0 1 0] @ sense void_terrain [pad_A] pad_A []"
    by blast
  from len bl m1 a b c' none d show ?thesis by (intro conjI)
qed

lemma growth_step_rng:
  assumes "rng (draws st) = rng' (draws st)"
  shows "growth_step terrain rng st i = growth_step terrain rng' st i"
  using assms by (simp add: growth_step_def random_choice_def Let_def)

lemma growth_step_draws:
  assumes "growth_step terrain rng st i = Inr st'"
  shows "draws st \<le> draws st' \<and> draws st' \<le> Suc (draws st)"
  using assms unfolding growth_step_def Let_def random_choice_def
  by (auto split: if_splits option.splits)

lemma growth_loop_rng:
  assumes "\<forall>k. draws st \<le> k \<and> k < draws st + length its \<longrightarrow> rng k = rng' k"
  shows "growth_loop terrain rng st its = growth_loop terrain rng' st its"
  using assms
proof (induction its arbitrary: st)
  case Nil
  then show ?case by simp
next
  case (Cons i its)
  from Cons.prems have "rng (draws st) = rng' (draws st)" by simp
  then have eq: "growth_step terrain rng st i = growth_step terrain rng' st i"
    by (rule growth_step_rng)
  show ?case
  proof (cases "growth_step terrain rng st i")
    case (Inl e)
    moreover from eq Inl have "growth_step terrain rng' st i = Inl e" by simp
    ultimately show ?thesis by simp
  next
    case (Inr s')
    from growth_step_draws [OF Inr] Cons.prems
    have "\<forall>k. draws s' \<le> k \<and> k < draws s' + length its \<longrightarrow> rng k = rng' k"
      by auto
    moreover from eq Inr have "growth_step terrain rng' st i = Inr s'" by simp
    ultimately show ?thesis using Cons.IH [of s'] Inr by simp
  qed
qed

text \<open>
  Claim C9 (determinism).  The colony returned by a run is determined by the terrain,
  the seed point, the budget and the random source; of the random source only the first
  \<open>max_modules\<close> draws matter.  Two runs on the same inputs whose random sources agree
  on these draws return the same modules in the same order.
\<close>

theorem run_deterministic:
  assumes "\<forall>k < nat max_modules. rng k = rng' k"
  shows "run_simulation terrain seed_point max_modules rng
           = run_simulation terrain seed_point max_modules rng'"
proof -
  have "\<forall>k. draws (init_state terrain seed_point) \<le> k \<and>
          k < draws (init_state terrain seed_point) + length [1..max_modules] \<longrightarrow> rng k = rng' k"
    using assms by (simp add: init_state_def Let_def)
  then have "run_state terrain seed_point max_modules rng
           = run_state terrain seed_point max_modules rng'"
    unfolding run_state_def by (rule growth_loop_rng)
  then show ?thesis by (simp add: run_simulation_def)
qed

text \<open>Two random sources that differ only after the second draw, on the two pads.\<close>

theorem run_deterministic_witness:
  "run_simulation two_pads pad_A 2 (\<lambda>k. 1)
     = run_simulation two_pads pad_A 2 (\<lambda>k. if k < 2 then 1 else 0)"
proof -
  have "\<forall>k < nat 2. (\<lambda>k. 1) k = (\<lambda>k. if k < 2 then 1 else (0::nat)) k" by simp
  then show ?thesis by (rule run_deterministic)
qed

section \<open>The six search directions\<close>

lemma Length_planar:
  assumes "c * c + s * s = 1" and "0 < t"
  shows "Length (Vector3d (c * t) (s * t) 0) = t"
proof -
  have "c * t * (c * t) + s * t * (s * t) + 0 * 0 = t * t * (c * c + s * s)"
    by (simp add: algebra_simps)
  also have "\<dots> = t * t" by (simp only: assms(1) mult_1_right)
  finally have "Length (Vector3d (c * t) (s * t) 0) = sqrt (t * t)" by (simp only: Length.simps)
  also have "\<dots> = t" using assms(2) by simp
  finally show ?thesis .
qed

lemma Unitize_planar:
  assumes "c * c + s * s = 1" and "0 < t"
  shows "Unitize (Vector3d (c * t) (s * t) 0) = (True, Vector3d c s 0)"
  using assms(2) unfolding Unitize_def Length_planar [OF assms] Let_def by simp

lemma Length_growth_direction: "Length (growth_direction i) = step_size"
  unfolding growth_direction_angle step_size_def
  by (rule Length_planar) (simp_all add: sin_cos_squared_add3)

lemma Unitize_growth_direction:
  "Unitize (growth_direction i) = (True, Vector3d (cos (real i * pi / 3)) (sin (real i * pi / 3)) 0)"
  unfolding growth_direction_angle
  by (rule Unitize_planar) (simp_all add: sin_cos_squared_add3)

lemma cos_step: "cos a * cos (a + pi / 3) + sin a * sin (a + pi / 3) = 1 / 2"
proof -
  have "cos ((a + pi / 3) - a) = cos (a + pi / 3) * cos a + sin (a + pi / 3) * sin a"
    by (rule cos_diff)
  moreover have "(a + pi / 3) - a = pi / 3" by simp
  ultimately have "cos (a + pi / 3) * cos a + sin (a + pi / 3) * sin a = cos (pi / 3)"
    by (simp only:)
  then show ?thesis by (simp only: cos_60 mult.commute)
qed

lemma arccos_half: "arccos (1 / 2) = pi / 3"
proof -
  have "arccos (cos (pi / 3)) = pi / 3" by (rule arccos_cos) simp_all
  then show ?thesis by (simp only: cos_60)
qed

lemma VectorAngle_consecutive:
  "VectorAngle (growth_direction i) (growth_direction (Suc i)) = pi / 3"
proof -
  have next_angle: "real (Suc i) * pi / 3 = real i * pi / 3 + pi / 3"
    by (simp add: algebra_simps)
  have "VectorAngle (growth_direction i) (growth_direction (Suc i))
      = arccos (cos (real i * pi / 3) * cos (real i * pi / 3 + pi / 3) +
          sin (real i * pi / 3) * sin (real i * pi / 3 + pi / 3))"
    unfolding VectorAngle_def Unitize_growth_direction next_angle
    by (simp add: Let_def cos_step del: cos_add sin_add)
  then show ?thesis by (simp only: cos_step arccos_half)
qed

lemma growth_directions_nth: "k < 6 \<Longrightarrow> growth_directions ! k = growth_direction k"
  by (simp add: growth_directions_def)

text \<open>
  Claim C5 (direction generator).  The search directions are a fixed list of exactly six
  vectors.  Vector \<open>k\<close> points at angle \<open>k * 60\<close> degrees in the plane \<open>z = 0\<close>, starting
  at angle 0; every vector has length \<open>step_size = 3.5\<close>; consecutive vectors are 60
  degrees apart; the first is \<open>(3.5, 0, 0)\<close>.  The list is a constant of the program, so
  generating it again gives the same list.
\<close>

theorem hexagonal_directions:
  "length growth_directions = 6 \<and>
   (\<forall>k < 6. growth_directions ! k
      = Vector3d (cos (radians (real k * 60)) * step_size)
                 (sin (radians (real k * 60)) * step_size) 0) \<and>
   (\<forall>v \<in> set growth_directions. vz v = 0 \<and> Length v = step_size) \<and>
   (\<forall>k < 5. degrees (VectorAngle (growth_directions ! k) (growth_directions ! Suc k)) = 60) \<and>
   step_size = 7 / 2 \<and>
   growth_directions ! 0 = Vector3d (7 / 2) 0 0 \<and>
   map growth_direction [0..<6] = growth_directions"
proof -
  have len: "length growth_directions = 6" by (simp add: growth_directions_def)
  have nth: "\<forall>k < 6. growth_directions ! k
      = Vector3d (cos (radians (real k * 60)) * step_size)
                 (sin (radians (real k * 60)) * step_size) 0"
    by (simp add: growth_directions_def growth_direction_def Let_def)
  have plane: "\<forall>v \<in> set growth_directions. vz v = 0 \<and> Length v = step_size"
  proof
    fix v assume "v \<in> set growth_directions"
    then obtain i where "v = growth_direction i" by (auto simp: growth_directions_def)
    then show "vz v = 0 \<and> Length v = step_size"
      by (simp add: Length_growth_direction) (simp add: growth_direction_angle)
  qed
  have apart: "\<forall>k < 5. degrees (VectorAngle (growth_directions ! k) (growth_directions ! Suc k)) = 60"
    by (simp add: growth_directions_nth VectorAngle_consecutive degrees_def)
  have first: "growth_directions ! 0 = Vector3d (7 / 2) 0 0"
    by (simp add: growth_directions_explicit)
  from len nth plane apart first show ?thesis
    by (simp add: step_size_def growth_directions_def)
qed

text \<open>The second direction: at 60 degrees, of length 3.5, 60 degrees from the first.\<close>

theorem hexagonal_directions_witness:
  "(1::nat) < 6 \<and>
   growth_directions ! 1
      = Vector3d (cos (radians (real 1 * 60)) * step_size)
                 (sin (radians (real 1 * 60)) * step_size) 0 \<and>
   growth_directions ! 1 \<in> set growth_directions \<and>
   vz (growth_directions ! 1) = 0 \<and> Length (growth_directions ! 1) = step_size \<and>
   (0::nat) < 5 \<and>
   degrees (VectorAngle (growth_directions ! 0) (growth_directions ! Suc 0)) = 60"
proof -
  note h = hexagonal_directions
  have k1: "(1::nat) < 6" and k0: "(0::nat) < 5" by simp_all
  have mem: "growth_directions ! 1 \<in> set growth_directions"
    by (rule nth_mem) (simp add: growth_directions_def)
  from h k1 have a: "growth_directions ! 1
      = Vector3d (cos (radians (real 1 * 60)) * step_size)
                 (sin (radians (real 1 * 60)) * step_size) 0"
    by blast
  from h mem have b: "vz (growth_directions ! 1) = 0 \<and> Length (growth_directions ! 1) = step_size"
    by blast
  from h k0 have c: "degrees (VectorAngle (growth_directions ! 0) (growth_directions ! Suc 0)) = 60"
    by blast
  from k1 a mem b k0 c show ?thesis by (intro conjI) simp_all
qed

end
